theory Spec2Isabelle
  imports Complex_Main
begin

section \<open>The FAL package manager add-on: state and logging\<close>

text \<open>
  The add-on keeps all of its state in properties of the Blender scene, declared by
  \<^verbatim>\<open>register()\<close>, and reaches the host through \<^verbatim>\<open>bpy\<close>. The model describes the add-on
  between \<^verbatim>\<open>register()\<close> and \<^verbatim>\<open>unregister()\<close>: every scene property exists, so each
  \<^verbatim>\<open>hasattr(scene, ...)\<close> test of the source is true. What the source reaches outside the
  scene (the console, operator reports, the timer registry, started threads, the add-on
  preferences, the process environment, the window areas, the interpreter's import state
  for the package) is a field of the same record. An exception that a function does not
  catch is a result of that function. Thread interleavings are not modelled: every
  function below runs as one sequential block.
\<close>

subsection \<open>Python values\<close>

text \<open>An exception is its class name and the text \<^verbatim>\<open>str(e)\<close>. Every exception of the model
  is a subclass of \<^verbatim>\<open>Exception\<close>.\<close>

datatype py_exc = PyExc (exc_class: string) (exc_str: string)

text \<open>\<^verbatim>\<open>str(n)\<close> for integers, as the f-strings of the source format them.\<close>

definition digit_char :: "nat \<Rightarrow> char" where
  "digit_char d = char_of (48 + d)"

function str_nat :: "nat \<Rightarrow> string" where
  "str_nat n = (if n < 10 then [digit_char n] else str_nat (n div 10) @ [digit_char (n mod 10)])"
  by pat_completeness auto
termination
  by (relation "measure id") auto

declare str_nat.simps [simp del]

definition str_int :: "int \<Rightarrow> string" where
  "str_int i = (if i < 0 then CHR ''-'' # str_nat (nat (- i)) else str_nat (nat i))"

text \<open>\<^verbatim>\<open>sep.join(xs)\<close>.\<close>

fun join :: "string \<Rightarrow> string list \<Rightarrow> string" where
  "join sep [] = []"
| "join sep [x] = x"
| "join sep (x # y # ys) = x @ sep @ join sep (y # ys)"

text \<open>A value handed to a function that expects a str: a str, or a value of another type
  (with the name of its type). A str is a \<open>string\<close> of the model when it has a UTF-8
  encoding; a str with a lone surrogate is outside the model.\<close>

datatype py_value = Str string | NonStr string

text \<open>Assigning a str to a \<^verbatim>\<open>bpy.props.StringProperty\<close> stores it as a C string: the property
  keeps the text before the first NUL character.\<close>

definition string_prop :: "string \<Rightarrow> string" where
  "string_prop v = takeWhile (\<lambda>c. c \<noteq> CHR 0x00) v"

subsection \<open>The host state\<close>

record area =
  area_type :: string
  redraw_tagged :: bool

text \<open>The add-on preferences: \<^verbatim>\<open>bpy.context.preferences.addons[__name__]\<close> raises KeyError when
  the add-on has no entry (the script run from the text editor), and \<^verbatim>\<open>.preferences\<close> is
  None when the preferences class is not registered, so that \<^verbatim>\<open>prefs.api_key\<close> raises
  AttributeError. Both constructors carry the text of the exception.\<close>

datatype prefs_state = NoAddon string | NoPreferences string | Prefs (api_key: string)

text \<open>What finding and executing the package \<^verbatim>\<open>fal\<close> from the interpreter's import path does:
  the module is created (with its \<^verbatim>\<open>__file__\<close>); ImportError or a subclass of it, such as
  ModuleNotFoundError, is raised (with its text); or the package is found and raises an
  exception that is not an ImportError while it is executed.\<close>

datatype import_result = Found string | NotFound string | Broken py_exc

record blender =
  fal_install_progress :: int
  fal_install_in_progress :: bool
  fal_install_log :: string
  fal_install_success :: bool
  fal_install_pid :: int
  fal_debug_log :: string
  fal_status_message :: string
  fal_api_key_input :: string
  console :: "string list"
  reports :: "(string \<times> string) list"
  threads_started :: nat
  timer_registered :: bool
  windows :: "area list list"
  addon_prefs :: prefs_state
  environ_FAL_KEY :: "string option"
  sys_modules_fal :: "string option"
  fal_on_path :: import_result

text \<open>The last two fields are the interpreter's import state for the package:
  \<^verbatim>\<open>sys.modules\<close> holds the module once an import has succeeded (here its \<^verbatim>\<open>__file__\<close>), and
  \<open>fal_on_path\<close> is what the import path offers. An installation changes the import path
  through the subprocess, outside the functions modelled here.\<close>

text \<open>The values \<^verbatim>\<open>register()\<close> declares as defaults, in a session with one 3D view, no
  add-on entry, no \<^verbatim>\<open>FAL_KEY\<close> in the environment and the package not installed.\<close>

definition registered :: blender where
  "registered =
     \<lparr>fal_install_progress = 0, fal_install_in_progress = False, fal_install_log = '''',
      fal_install_success = False, fal_install_pid = - 1,
      fal_debug_log = ''[DEBUG] FAL Package Manager debug log initialized'',
      fal_status_message = '''', fal_api_key_input = '''', console = [], reports = [],
      threads_started = 0, timer_registered = False,
      windows = [[\<lparr>area_type = ''VIEW_3D'', redraw_tagged = False\<rparr>,
                  \<lparr>area_type = ''OUTLINER'', redraw_tagged = False\<rparr>]],
      addon_prefs = NoAddon ''__main__'', environ_FAL_KEY = None,
      sys_modules_fal = None, fal_on_path = NotFound ''No module named fal''\<rparr>"

subsection \<open>Logging\<close>

text \<open>Each function prints the whole message to the console and assigns to string
  properties of the scene.\<close>

definition log_debug :: "string \<Rightarrow> blender \<Rightarrow> blender" where
  "log_debug message s =
     s\<lparr>console := console s @ [''[FAL_DEBUG] '' @ message],
       fal_debug_log := string_prop (fal_debug_log s @ [CHR 0x0A] @ ''[DEBUG] '' @ message)\<rparr>"

definition log_info :: "string \<Rightarrow> blender \<Rightarrow> blender" where
  "log_info message s =
     s\<lparr>console := console s @ [''[FAL_INFO] '' @ message],
       fal_debug_log := string_prop (fal_debug_log s @ [CHR 0x0A] @ ''[INFO] '' @ message),
       fal_status_message := string_prop message\<rparr>"

definition log_error :: "string \<Rightarrow> blender \<Rightarrow> blender" where
  "log_error message s =
     s\<lparr>console := console s @ [''[FAL_ERROR] '' @ message],
       fal_debug_log := string_prop (fal_debug_log s @ [CHR 0x0A] @ ''[ERROR] '' @ message),
       fal_status_message := string_prop (''ERROR: '' @ message)\<rparr>"

section \<open>The polling observer\<close>

text \<open>The two nested loops over \<^verbatim>\<open>window_manager.windows\<close> and \<^verbatim>\<open>window.screen.areas\<close>.\<close>

definition tag_redraw_view3d :: "blender \<Rightarrow> blender" where
  "tag_redraw_view3d s =
     s\<lparr>windows := map (map (\<lambda>a. if area_type a = ''VIEW_3D''
                                 then a\<lparr>redraw_tagged := True\<rparr> else a)) (windows s)\<rparr>"

text \<open>\<^verbatim>\<open>FALPackageChecker._monitor_installation\<close>: the value returned to the timer registry is
  \<^verbatim>\<open>None\<close> (stop) or the next interval in seconds.\<close>

definition monitor_installation :: "blender \<Rightarrow> real option \<times> blender" where
  "monitor_installation s =
     (if \<not> fal_install_in_progress s
      then (None, tag_redraw_view3d (log_debug ''Installation monitoring complete'' s))
      else
        let current_progress = fal_install_progress s;
            s1 = (if current_progress < 90
                  then s\<lparr>fal_install_progress := fal_install_progress s + 1\<rparr> else s)
        in (Some (2 / 10), tag_redraw_view3d s1))"

text \<open>The timer registry calls the callback again for as long as it returns an interval;
  \<open>monitor_ticks n\<close> is the state after \<open>n\<close> calls.\<close>

fun monitor_ticks :: "nat \<Rightarrow> blender \<Rightarrow> blender" where
  "monitor_ticks 0 s = s"
| "monitor_ticks (Suc n) s =
     (case monitor_installation s of
        (None, s') \<Rightarrow> s'
      | (Some _, s') \<Rightarrow> monitor_ticks n s')"

section \<open>The dependency installer\<close>

subsection \<open>Detection\<close>

text \<open>The statement \<^verbatim>\<open>import fal\<close>: a module in \<^verbatim>\<open>sys.modules\<close> is bound as it is; otherwise the
  package is looked for and executed, and entered in \<^verbatim>\<open>sys.modules\<close> when that succeeds.
  The result is the module's \<^verbatim>\<open>__file__\<close>, or what was raised: an ImportError (with its
  text) or another exception.\<close>

datatype import_raised = ImportErrorRaised string | OtherRaised py_exc

definition import_fal :: "blender \<Rightarrow> (import_raised + string) \<times> blender" where
  "import_fal s =
     (case sys_modules_fal s of
        Some file \<Rightarrow> (Inr file, s)
      | None \<Rightarrow>
          (case fal_on_path s of
             Found file \<Rightarrow> (Inr file, s\<lparr>sys_modules_fal := Some file\<rparr>)
           | NotFound e \<Rightarrow> (Inl (ImportErrorRaised e), s)
           | Broken e \<Rightarrow> (Inl (OtherRaised e), s)))"

text \<open>\<^verbatim>\<open>FALPackageChecker.is_package_installed\<close>: its handler catches ImportError only, so
  another exception raised by the import leaves the function (\<open>Inl\<close>).\<close>

definition is_package_installed :: "blender \<Rightarrow> (py_exc + bool) \<times> blender" where
  "is_package_installed s =
     (let s = log_debug ''Checking if fal package is installed...'' s
      in case import_fal s of
           (Inr file, s) \<Rightarrow> (Inr True, log_debug (''FAL package found: '' @ file) s)
         | (Inl (ImportErrorRaised e), s) \<Rightarrow>
             (Inr False, log_debug (''FAL package not found: '' @ e) s)
         | (Inl (OtherRaised e), s) \<Rightarrow> (Inl e, s))"

subsection \<open>Starting an installation\<close>

text \<open>\<^verbatim>\<open>FALPackageChecker.install_package\<close>: the thread it starts is counted, and the count is
  the handle it returns; the worker itself is \<open>install_process\<close> below.\<close>

definition install_package :: "blender \<Rightarrow> nat \<times> blender" where
  "install_package s =
     (let s = log_debug ''Starting FAL package installation process'' s;
          s = s\<lparr>fal_install_progress := 0\<rparr>;
          s = s\<lparr>fal_install_in_progress := True\<rparr>;
          s = s\<lparr>fal_install_log := []\<rparr>;
          s = s\<lparr>fal_install_success := False\<rparr>;
          s = s\<lparr>threads_started := threads_started s + 1\<rparr>;
          install_thread = threads_started s;
          s = (if \<not> timer_registered s then s\<lparr>timer_registered := True\<rparr> else s);
          s = log_info ''Installing FAL package... This may take a moment.'' s
      in (install_thread, s))"

text \<open>\<^verbatim>\<open>FAL_OT_InstallPackage.execute\<close>: the operator's result set has one element.\<close>

definition execute_install :: "blender \<Rightarrow> string \<times> blender" where
  "execute_install s =
     (let s = log_debug ''Install package operator executed'' s
      in if fal_install_in_progress s
         then
           let s = s\<lparr>reports := reports s @ [(''WARNING'', ''Installation already in progress'')]\<rparr>;
               s = log_info ''Installation already in progress'' s
           in (''CANCELLED'', s)
         else
           let s = s\<lparr>reports := reports s @
                      [(''INFO'', ''Installing FAL package... This may take a moment.'')]\<rparr>;
               s = snd (install_package s)
           in (''FINISHED'', s))"

subsection \<open>The worker\<close>

text \<open>What the worker's calls into the operating system do in one run: each either raises
  or yields its value; \<^verbatim>\<open>process.wait()\<close> yields the return code, or never returns.\<close>

record worker_env =
  NamedTemporaryFile :: "py_exc + string"
  getsitepackages :: "string list"
  executable :: string
  open_log_w :: "py_exc option"
  Popen :: "py_exc + int"
  process_wait :: "int option"
  read_log :: "py_exc + string"
  unlink :: "py_exc option"

text \<open>The worker runs beside the host's event loop, which reads the scene between any two
  of its statements. A run is therefore the current scene together with the scenes it went
  through, the latest first; \<open>exec\<close> performs one statement.\<close>

datatype run = Run (now: blender) (past: "blender list")

definition exec :: "(blender \<Rightarrow> blender) \<Rightarrow> run \<Rightarrow> run" where
  "exec f r = Run (f (now r)) (now r # past r)"

text \<open>The scenes of a run in the order they occurred, the current one last.\<close>

definition history :: "run \<Rightarrow> blender list" where
  "history r = rev (past r) @ [now r]"

text \<open>Lines before the \<^verbatim>\<open>try\<close>: the temporary file, the interpreter, the command. An
  exception here is not inside any handler.\<close>

definition install_prelude :: "worker_env \<Rightarrow> run \<Rightarrow> (py_exc \<times> run) + (string \<times> string list \<times> run)" where
  "install_prelude env r =
     (let r = exec (log_debug ''Installation thread started'') r
      in case NamedTemporaryFile env of
           Inl e \<Rightarrow> Inl (e, r)
         | Inr log_path \<Rightarrow>
             (let r = exec (log_debug (''Created temporary log file: '' @ log_path)) r
              in (case getsitepackages env of
                    [] \<Rightarrow> Inl (PyExc ''IndexError'' ''list index out of range'', r)
                  | site_packages # _ \<Rightarrow>
                      (let python_exe = executable env;
                           r = exec (log_debug (''Using Python executable: '' @ python_exe)) r;
                           r = exec (log_debug (''Installing to site-packages: '' @ site_packages)) r;
                           cmd = [python_exe, ''-m'', ''pip'', ''install'', ''fal'', ''--target'',
                                  site_packages, ''--verbose''];
                           r = exec (log_debug (''Running command: '' @ join '' '' cmd)) r
                       in Inr (log_path, cmd, r)))))"

text \<open>Inside the \<^verbatim>\<open>try\<close>, up to the call of \<^verbatim>\<open>process.wait()\<close>.\<close>

definition install_spawn :: "worker_env \<Rightarrow> run \<Rightarrow> (py_exc \<times> run) + (int \<times> run)" where
  "install_spawn env r =
     (case open_log_w env of
        Some e \<Rightarrow> Inl (e, r)
      | None \<Rightarrow>
          (case Popen env of
             Inl e \<Rightarrow> Inl (e, r)
           | Inr pid \<Rightarrow>
               let r = exec (\<lambda>s. s\<lparr>fal_install_pid := pid\<rparr>) r;
                   r = exec (log_debug (''Started pip process with PID: '' @ str_int pid)) r
               in Inr (pid, r)))"

text \<open>Inside the \<^verbatim>\<open>try\<close>, after \<^verbatim>\<open>process.wait()\<close> has returned \<open>returncode\<close>.\<close>

definition install_collect :: "worker_env \<Rightarrow> int \<Rightarrow> run \<Rightarrow> (py_exc \<times> run) + run" where
  "install_collect env returncode r =
     (let r = exec (log_debug (''Pip process completed with return code: '' @ str_int returncode)) r;
          success = (returncode = 0)
      in case read_log env of
           Inl e \<Rightarrow> Inl (e, r)
         | Inr output \<Rightarrow>
             let r = exec (log_debug (''Captured '' @ str_nat (length output) @
                                      '' bytes of log output'')) r;
                 r = exec (\<lambda>s. s\<lparr>fal_install_log := string_prop output\<rparr>) r;
                 r = exec (\<lambda>s. s\<lparr>fal_install_success := success\<rparr>) r;
                 r = (if success
                      then exec (log_info ''FAL package installation completed successfully!'') r
                      else exec (log_error (''FAL package installation failed with code '' @
                                            str_int returncode)) r)
             in Inr r)"

text \<open>The handler \<^verbatim>\<open>except Exception as e\<close>.\<close>

definition install_except :: "py_exc \<Rightarrow> run \<Rightarrow> run" where
  "install_except e r =
     (let error_msg = ''Exception during installation: '' @ exc_str e;
          r = exec (log_error error_msg) r;
          r = exec (\<lambda>s. s\<lparr>fal_install_log := string_prop error_msg\<rparr>) r;
          r = exec (\<lambda>s. s\<lparr>fal_install_success := False\<rparr>) r
      in r)"

text \<open>After the \<^verbatim>\<open>try\<close> statement: completion is marked and the temporary file removed.\<close>

definition install_finish :: "worker_env \<Rightarrow> string \<Rightarrow> run \<Rightarrow> run" where
  "install_finish env log_path r =
     (let r = exec (\<lambda>s. s\<lparr>fal_install_in_progress := False\<rparr>) r;
          r = exec (\<lambda>s. s\<lparr>fal_install_progress := (if fal_install_success s then 100 else 0)\<rparr>) r
      in case unlink env of
           None \<Rightarrow> exec (log_debug (''Removed temporary log file: '' @ log_path)) r
         | Some e \<Rightarrow> exec (log_debug (''Failed to remove temp file: '' @ exc_str e)) r)"

text \<open>How a run of the worker thread ends: it returns, it dies with an exception that no
  handler caught, or it stays blocked in \<^verbatim>\<open>process.wait()\<close>.\<close>

datatype outcome = Returned run | Raised py_exc run | Blocked run

fun run_of :: "outcome \<Rightarrow> run" where
  "run_of (Returned r) = r"
| "run_of (Raised e r) = r"
| "run_of (Blocked r) = r"

text \<open>\<^verbatim>\<open>FALPackageChecker._install_process\<close>.\<close>

definition install_process :: "worker_env \<Rightarrow> blender \<Rightarrow> outcome" where
  "install_process env s =
     (case install_prelude env (Run s []) of
        Inl (e, r) \<Rightarrow> Raised e r
      | Inr (log_path, cmd, r) \<Rightarrow>
          (case install_spawn env r of
             Inl (e, r) \<Rightarrow> Returned (install_finish env log_path (install_except e r))
           | Inr (pid, r) \<Rightarrow>
               (case process_wait env of
                  None \<Rightarrow> Blocked r
                | Some returncode \<Rightarrow>
                    (case install_collect env returncode r of
                       Inl (e, r) \<Rightarrow> Returned (install_finish env log_path (install_except e r))
                     | Inr r \<Rightarrow> Returned (install_finish env log_path r)))))"

text \<open>The scene a run ends in.\<close>

definition final :: "outcome \<Rightarrow> blender" where
  "final out = now (run_of out)"

text \<open>The run at the moment the worker calls \<^verbatim>\<open>process.wait()\<close>, when it gets that far: the
  scene stays as it is there for as long as the subprocess runs.\<close>

definition install_waiting :: "worker_env \<Rightarrow> blender \<Rightarrow> run option" where
  "install_waiting env s =
     (case install_prelude env (Run s []) of
        Inl _ \<Rightarrow> None
      | Inr (log_path, cmd, r) \<Rightarrow>
          (case install_spawn env r of
             Inl _ \<Rightarrow> None
           | Inr (pid, r) \<Rightarrow> Some r))"

section \<open>The API key\<close>

text \<open>The second \<^verbatim>\<open>try\<close> block of \<^verbatim>\<open>get_api_key\<close>: \<^verbatim>\<open>os.environ.get("FAL_KEY", "")\<close> does not
  raise, so its handler has no branch here.\<close>

definition get_api_key_environ :: "blender \<Rightarrow> string \<times> blender" where
  "get_api_key_environ s =
     (let key = (case environ_FAL_KEY s of None \<Rightarrow> [] | Some v \<Rightarrow> v)
      in if key \<noteq> []
         then (key, log_debug ''API key found in environment variable'' s)
         else (key, log_debug ''No API key found in environment variable'' s))"

text \<open>\<^verbatim>\<open>get_api_key\<close>.\<close>

definition get_api_key :: "blender \<Rightarrow> string \<times> blender" where
  "get_api_key s =
     (let s = log_debug ''Getting API key'' s
      in case addon_prefs s of
           Prefs k \<Rightarrow>
             if k \<noteq> []
             then (k, log_debug ''API key found in addon preferences'' s)
             else get_api_key_environ s
         | NoAddon e \<Rightarrow>
             get_api_key_environ (log_debug (''Could not get API key from preferences: '' @ e) s)
         | NoPreferences e \<Rightarrow>
             get_api_key_environ (log_debug (''Could not get API key from preferences: '' @ e) s))"

text \<open>\<^verbatim>\<open>prefs.api_key = value\<close> on the preferences object: the string property stores a str
  and raises TypeError for a value of another type.\<close>

definition api_key_setattr :: "py_value \<Rightarrow> py_exc + string" where
  "api_key_setattr value =
     (case value of
        Str v \<Rightarrow> Inr (string_prop v)
      | NonStr ty \<Rightarrow>
          Inl (PyExc ''TypeError''
                (''bpy_struct: item.attr = val: FALAddonPreferences.api_key '' @
                 ''expected a string type, not '' @ ty)))"

text \<open>\<^verbatim>\<open>os.environ["FAL_KEY"] = value\<close>: CPython raises TypeError for a value that is not a
  str and ValueError for a str with a NUL character, and stores any other string.\<close>

definition environ_setitem :: "py_value \<Rightarrow> py_exc + string" where
  "environ_setitem value =
     (case value of
        Str v \<Rightarrow>
          if CHR 0x00 \<in> set v then Inl (PyExc ''ValueError'' ''embedded null byte'') else Inr v
      | NonStr ty \<Rightarrow> Inl (PyExc ''TypeError'' (''str expected, not '' @ ty)))"

text \<open>The second \<^verbatim>\<open>try\<close> block of \<^verbatim>\<open>set_api_key\<close>: every exception of the assignment is caught.\<close>

definition set_api_key_environ :: "py_value \<Rightarrow> blender \<Rightarrow> bool \<times> blender" where
  "set_api_key_environ value s =
     (case environ_setitem value of
        Inr v \<Rightarrow>
          (True, log_debug ''API key set as environment variable''
                   (s\<lparr>environ_FAL_KEY := Some v\<rparr>))
      | Inl e \<Rightarrow>
          (False, log_error (''Error setting FAL_KEY environment variable: '' @ exc_str e) s))"

text \<open>\<^verbatim>\<open>set_api_key\<close>: the first handler catches KeyError and AttributeError only, so another
  exception raised by the assignment to the preference leaves the function (\<open>Inl\<close>).\<close>

definition set_api_key :: "py_value \<Rightarrow> blender \<Rightarrow> (py_exc + bool) \<times> blender" where
  "set_api_key value s =
     (let s = log_debug ''Setting API key'' s
      in case addon_prefs s of
           Prefs _ \<Rightarrow>
             (case api_key_setattr value of
                Inr v \<Rightarrow>
                  (let s = log_debug ''API key saved to addon preferences''
                             (s\<lparr>addon_prefs := Prefs v\<rparr>);
                       (result, s) = set_api_key_environ value s
                   in (Inr result, s))
              | Inl e \<Rightarrow> (Inl e, s))
         | NoAddon e \<Rightarrow>
             (let s = log_debug (''Could not save API key to preferences: '' @ e) s;
                  (result, s) = set_api_key_environ value s
              in (Inr result, s))
         | NoPreferences e \<Rightarrow>
             (let s = log_debug (''Could not save API key to preferences: '' @ e) s;
                  (result, s) = set_api_key_environ value s
              in (Inr result, s)))"

section \<open>Mesh clean-up\<close>

text \<open>The object handed to \<^verbatim>\<open>process_mesh\<close>, and the scene around it (mode, selection, other
  objects), which the source reaches only through the host's operators.\<close>

record 'm mesh_object =
  ob_type :: string
  ob_data :: 'm
  ob_location :: "real \<times> real \<times> real"

record ('m, 'w) scene3d =
  ob :: "'m mesh_object"
  around :: 'w

text \<open>The operators of \<^verbatim>\<open>bpy.ops.object\<close> and the functions of \<^verbatim>\<open>bmesh\<close> that the source
  calls belong to the host, so they are parameters. An operator raises (RuntimeError when
  the context is wrong) or changes the scene.\<close>

record ('m, 'bm, 'w) bpy_host =
  mode_set :: "string \<Rightarrow> ('m, 'w) scene3d \<Rightarrow> py_exc + ('m, 'w) scene3d"
  origin_set :: "string \<Rightarrow> string \<Rightarrow> ('m, 'w) scene3d \<Rightarrow> py_exc + ('m, 'w) scene3d"
  transform_apply :: "bool \<Rightarrow> bool \<Rightarrow> bool \<Rightarrow> ('m, 'w) scene3d \<Rightarrow> py_exc + ('m, 'w) scene3d"
  from_edit_mesh :: "'m \<Rightarrow> 'bm"
  remove_doubles :: "'bm \<Rightarrow> real \<Rightarrow> 'bm"
  update_edit_mesh :: "'bm \<Rightarrow> 'm \<Rightarrow> 'm"

text \<open>\<^verbatim>\<open>FALMeshProcessor.process_mesh\<close>.\<close>

definition process_mesh ::
  "('m, 'bm, 'w) bpy_host \<Rightarrow> ('m, 'w) scene3d \<Rightarrow> py_exc + ('m, 'w) scene3d" where
  "process_mesh bpy sc =
     (if ob_type (ob sc) \<noteq> ''MESH'' then Inr sc
      else
        (case mode_set bpy ''EDIT'' sc of
           Inl e \<Rightarrow> Inl e
         | Inr sc \<Rightarrow>
             (let bm = from_edit_mesh bpy (ob_data (ob sc));
                  bm = remove_doubles bpy bm (1 / 10000);
                  sc = sc\<lparr>ob := (ob sc)\<lparr>ob_data := update_edit_mesh bpy bm (ob_data (ob sc))\<rparr>\<rparr>
              in (case mode_set bpy ''OBJECT'' sc of
                    Inl e \<Rightarrow> Inl e
                  | Inr sc \<Rightarrow>
                      (case origin_set bpy ''ORIGIN_GEOMETRY'' ''BOUNDS'' sc of
                         Inl e \<Rightarrow> Inl e
                       | Inr sc \<Rightarrow>
                           (case transform_apply bpy True True True sc of
                              Inl e \<Rightarrow> Inl e
                            | Inr sc \<Rightarrow>
                                Inr (sc\<lparr>ob := (ob sc)\<lparr>ob_location :=
                                       (fst (ob_location (ob sc)),
                                        fst (snd (ob_location (ob sc))), 0)\<rparr>\<rparr>)))))))"

section \<open>Vocabulary of the properties\<close>

text \<open>How many times the value changes along a list.\<close>

fun changes :: "'a list \<Rightarrow> nat" where
  "changes (x # y # ys) = (if x \<noteq> y then 1 else 0) + changes (y # ys)"
| "changes _ = 0"

text \<open>The worker function came to its end (it neither died with an exception nor stays
  blocked).\<close>

fun returned :: "outcome \<Rightarrow> bool" where
  "returned (Returned r) = True"
| "returned _ = False"

text \<open>The worker gets as far as launching the subprocess: the lines before the \<^verbatim>\<open>try\<close>
  raise nothing, the capture file opens and \<^verbatim>\<open>Popen\<close> returns.\<close>

definition prelude_ok :: "worker_env \<Rightarrow> bool" where
  "prelude_ok env =
     ((case NamedTemporaryFile env of Inr _ \<Rightarrow> True | Inl _ \<Rightarrow> False) \<and>
      getsitepackages env \<noteq> [])"

definition launched :: "worker_env \<Rightarrow> bool" where
  "launched env =
     (prelude_ok env \<and> open_log_w env = None \<and>
      (case Popen env of Inr _ \<Rightarrow> True | Inl _ \<Rightarrow> False))"

text \<open>Two relations between a run and a later run of the same thread: \<open>quiet r r'\<close> when the
  statements between them leave \<^verbatim>\<open>fal_install_log\<close> as it is in \<open>r\<close>; \<open>wrote r r' v\<close> when
  the log keeps its value of \<open>r\<close> up to some statement, and is \<open>v\<close> from that statement on.\<close>

definition quiet :: "run \<Rightarrow> run \<Rightarrow> bool" where
  "quiet r r' =
     (\<exists>post. history r' = history r @ post \<and>
        (\<forall>t \<in> set post. fal_install_log t = fal_install_log (now r)))"

definition wrote :: "run \<Rightarrow> run \<Rightarrow> string \<Rightarrow> bool" where
  "wrote r r' v =
     (\<exists>pre post. history r' = history r @ pre @ post \<and> post \<noteq> [] \<and>
        (\<forall>t \<in> set pre. fal_install_log t = fal_install_log (now r)) \<and>
        (\<forall>t \<in> set post. fal_install_log t = v))"

text \<open>The scene right after \<^verbatim>\<open>install_package\<close> on a freshly registered add-on.\<close>

definition started :: blender where
  "started = snd (install_package registered)"

text \<open>Runs of the worker used as concrete inputs: pip installs the package; the
  temporary file cannot be created; pip exits with 0 and its output cannot be decoded;
  the interpreter cannot be launched; the output of pip has a NUL character; pip exits
  with 1.\<close>

definition env_ok :: worker_env where
  "env_ok =
     \<lparr>NamedTemporaryFile = Inr ''/tmp/tmpk3v9.txt'',
      getsitepackages = [''/opt/blender/python/lib/site-packages''],
      executable = ''/opt/blender/python/bin/python3'',
      open_log_w = None, Popen = Inr 4242, process_wait = Some 0,
      read_log = Inr ''Successfully installed fal-1.0'', unlink = None\<rparr>"

definition env_tmp_denied :: worker_env where
  "env_tmp_denied =
     env_ok\<lparr>NamedTemporaryFile :=
       Inl (PyExc ''PermissionError'' ''[Errno 13] Permission denied'')\<rparr>"

definition env_undecodable :: worker_env where
  "env_undecodable =
     env_ok\<lparr>read_log := Inl (PyExc ''UnicodeDecodeError'' ''invalid start byte'')\<rparr>"

definition env_no_launch :: worker_env where
  "env_no_launch =
     env_ok\<lparr>Popen := Inl (PyExc ''FileNotFoundError'' ''[Errno 2] No such file or directory'')\<rparr>"

definition env_nul_output :: worker_env where
  "env_nul_output =
     env_ok\<lparr>read_log := Inr [CHR ''a'', CHR ''b'', CHR 0x00, CHR ''c'', CHR ''d'']\<rparr>"

definition env_exit1 :: worker_env where
  "env_exit1 = env_ok\<lparr>process_wait := Some 1, read_log := Inr ''ERROR: No matching distribution''\<rparr>"

text \<open>A host used as a concrete input: mesh data is a list of vertex ids, the scene around
  the object is the mode, merging removes repeated ids, and no operator raises.\<close>

definition list_host :: "(nat list, nat list, string) bpy_host" where
  "list_host =
     \<lparr>mode_set = (\<lambda>m sc. Inr (sc\<lparr>around := m\<rparr>)),
      origin_set = (\<lambda>t c sc. Inr sc),
      transform_apply = (\<lambda>l r s sc. Inr sc),
      from_edit_mesh = (\<lambda>m. m),
      remove_doubles = (\<lambda>bm d. remdups bm),
      update_edit_mesh = (\<lambda>bm m. bm)\<rparr>"

definition camera_scene :: "(nat list, string) scene3d" where
  "camera_scene =
     \<lparr>ob = \<lparr>ob_type = ''CAMERA'', ob_data = [1, 1, 2], ob_location = (1, 2, 3)\<rparr>,
      around = ''OBJECT''\<rparr>"

definition mesh_scene :: "(nat list, string) scene3d" where
  "mesh_scene =
     \<lparr>ob = \<lparr>ob_type = ''MESH'', ob_data = [1, 1, 2], ob_location = (1, 2, 3)\<rparr>,
      around = ''OBJECT''\<rparr>"

text \<open>Sessions in which the package is on the import path and not yet imported, and in
  which the package is found and raises while it is imported.\<close>

definition installed :: blender where
  "installed =
     registered\<lparr>fal_on_path := Found ''/opt/blender/python/lib/site-packages/fal/__init__.py''\<rparr>"

definition broken_install :: blender where
  "broken_install =
     registered\<lparr>fal_on_path := Broken (PyExc ''RuntimeError'' ''fal requires a newer Python'')\<rparr>"

text \<open>A session in which the add-on preferences exist and hold a key.\<close>

definition with_prefs :: blender where
  "with_prefs = registered\<lparr>addon_prefs := Prefs ''pref-key'', environ_FAL_KEY := Some ''env-key''\<rparr>"

section \<open>String properties\<close>

lemma string_prop_id: "CHR 0x00 \<notin> set v \<Longrightarrow> string_prop v = v"
  by (induction v) (auto simp: string_prop_def)

lemma string_prop_no_nul: "CHR 0x00 \<notin> set (string_prop v)"
  using set_takeWhileD [of "CHR 0x00" "\<lambda>c. c \<noteq> CHR 0x00" v] by (auto simp: string_prop_def)

lemma string_prop_append:
  "CHR 0x00 \<notin> set u \<Longrightarrow> string_prop (u @ v) = u @ string_prop v"
  by (induction u) (auto simp: string_prop_def)

section \<open>Frame lemmas of the logging functions\<close>

lemma log_debug_frame [simp]:
  "fal_install_progress (log_debug m s) = fal_install_progress s"
  "fal_install_in_progress (log_debug m s) = fal_install_in_progress s"
  "fal_install_log (log_debug m s) = fal_install_log s"
  "fal_install_success (log_debug m s) = fal_install_success s"
  "fal_install_pid (log_debug m s) = fal_install_pid s"
  "fal_status_message (log_debug m s) = fal_status_message s"
  "fal_api_key_input (log_debug m s) = fal_api_key_input s"
  "reports (log_debug m s) = reports s"
  "threads_started (log_debug m s) = threads_started s"
  "timer_registered (log_debug m s) = timer_registered s"
  "windows (log_debug m s) = windows s"
  "addon_prefs (log_debug m s) = addon_prefs s"
  "environ_FAL_KEY (log_debug m s) = environ_FAL_KEY s"
  "sys_modules_fal (log_debug m s) = sys_modules_fal s"
  "fal_on_path (log_debug m s) = fal_on_path s"
  by (simp_all add: log_debug_def)

lemma log_info_frame [simp]:
  "fal_install_progress (log_info m s) = fal_install_progress s"
  "fal_install_in_progress (log_info m s) = fal_install_in_progress s"
  "fal_install_log (log_info m s) = fal_install_log s"
  "fal_install_success (log_info m s) = fal_install_success s"
  "fal_install_pid (log_info m s) = fal_install_pid s"
  "fal_api_key_input (log_info m s) = fal_api_key_input s"
  "reports (log_info m s) = reports s"
  "threads_started (log_info m s) = threads_started s"
  "timer_registered (log_info m s) = timer_registered s"
  "windows (log_info m s) = windows s"
  "addon_prefs (log_info m s) = addon_prefs s"
  "environ_FAL_KEY (log_info m s) = environ_FAL_KEY s"
  "sys_modules_fal (log_info m s) = sys_modules_fal s"
  "fal_on_path (log_info m s) = fal_on_path s"
  by (simp_all add: log_info_def)

lemma log_error_frame [simp]:
  "fal_install_progress (log_error m s) = fal_install_progress s"
  "fal_install_in_progress (log_error m s) = fal_install_in_progress s"
  "fal_install_log (log_error m s) = fal_install_log s"
  "fal_install_success (log_error m s) = fal_install_success s"
  "fal_install_pid (log_error m s) = fal_install_pid s"
  "fal_api_key_input (log_error m s) = fal_api_key_input s"
  "reports (log_error m s) = reports s"
  "threads_started (log_error m s) = threads_started s"
  "timer_registered (log_error m s) = timer_registered s"
  "windows (log_error m s) = windows s"
  "addon_prefs (log_error m s) = addon_prefs s"
  "environ_FAL_KEY (log_error m s) = environ_FAL_KEY s"
  "sys_modules_fal (log_error m s) = sys_modules_fal s"
  "fal_on_path (log_error m s) = fal_on_path s"
  by (simp_all add: log_error_def)

lemma tag_redraw_frame [simp]:
  "fal_install_progress (tag_redraw_view3d s) = fal_install_progress s"
  "fal_install_in_progress (tag_redraw_view3d s) = fal_install_in_progress s"
  "fal_install_log (tag_redraw_view3d s) = fal_install_log s"
  "fal_install_success (tag_redraw_view3d s) = fal_install_success s"
  "fal_install_pid (tag_redraw_view3d s) = fal_install_pid s"
  by (simp_all add: tag_redraw_view3d_def)

lemma install_package_state:
  "fal_install_progress (snd (install_package s)) = 0"
  "fal_install_in_progress (snd (install_package s))"
  "fal_install_log (snd (install_package s)) = []"
  "\<not> fal_install_success (snd (install_package s))"
  "fal_install_pid (snd (install_package s)) = fal_install_pid s"
  "threads_started (snd (install_package s)) = threads_started s + 1"
  "timer_registered (snd (install_package s))"
  by (simp_all add: install_package_def Let_def)

lemma started_state [simp]:
  "fal_install_progress started = 0"
  "fal_install_in_progress started"
  "fal_install_log started = []"
  "\<not> fal_install_success started"
  "fal_install_pid started = - 1"
  by (simp_all add: started_def install_package_state registered_def)

section \<open>The polling observer: progress is synthetic and capped\<close>

lemma monitor_step_running:
  assumes "fal_install_in_progress s"
  shows "fst (monitor_installation s) = Some (2 / 10)"
    and "fal_install_in_progress (snd (monitor_installation s))"
    and "fal_install_progress (snd (monitor_installation s)) =
           (if fal_install_progress s < 90 then fal_install_progress s + 1
            else fal_install_progress s)"
  using assms by (simp_all add: monitor_installation_def Let_def)

lemma monitor_ticks_Suc_running:
  assumes "fal_install_in_progress s"
  shows "monitor_ticks (Suc n) s = monitor_ticks n (snd (monitor_installation s))"
  using monitor_step_running(1) [OF assms]
  by (cases "monitor_installation s") (simp split: option.splits)

text \<open>The exact progress after \<open>n\<close> calls of the timer callback during an installation.\<close>

lemma monitor_ticks_running:
  "fal_install_in_progress s \<Longrightarrow>
     fal_install_in_progress (monitor_ticks n s) \<and>
     fal_install_progress (monitor_ticks n s) =
       (if fal_install_progress s < 90 then min 90 (fal_install_progress s + int n)
        else fal_install_progress s)"
proof (induction n arbitrary: s)
  case 0
  then show ?case by simp
next
  case (Suc n)
  let ?t = "snd (monitor_installation s)"
  have run: "fal_install_in_progress ?t"
    using Suc.prems by (rule monitor_step_running(2))
  have p: "fal_install_progress ?t =
             (if fal_install_progress s < 90 then fal_install_progress s + 1
              else fal_install_progress s)"
    using Suc.prems by (rule monitor_step_running(3))
  have "monitor_ticks (Suc n) s = monitor_ticks n ?t"
    using Suc.prems by (rule monitor_ticks_Suc_running)
  with Suc.IH [OF run] p show ?case by auto
qed

text \<open>
  Claim C5. While \<^verbatim>\<open>fal_install_in_progress\<close> is true, any number of calls of the polling
  observer leaves it true, never lowers \<^verbatim>\<open>fal_install_progress\<close> from one call to the next,
  keeps it at most 90 when it started at most 90 (an installation starts it at 0), and
  every value the observer itself writes is above the value it found and at most 90: the
  observer never writes a terminal value, neither 100 nor a fall back to 0.
\<close>

theorem monitor_progress_capped:
  assumes "fal_install_in_progress s"
  shows "fal_install_in_progress (monitor_ticks n s) \<and>
         fal_install_progress (monitor_ticks n s) \<le> fal_install_progress (monitor_ticks (Suc n) s) \<and>
         (fal_install_progress s \<le> 90 \<longrightarrow> fal_install_progress (monitor_ticks n s) \<le> 90) \<and>
         (fal_install_progress (monitor_ticks n s) \<noteq> fal_install_progress s \<longrightarrow>
            fal_install_progress s < fal_install_progress (monitor_ticks n s) \<and>
            fal_install_progress (monitor_ticks n s) \<le> 90)"
  using monitor_ticks_running [OF assms, of n] monitor_ticks_running [OF assms, of "Suc n"]
  by (auto split: if_splits)

theorem monitor_progress_capped_witness:
  "fal_install_in_progress started \<and>
   fal_install_in_progress (monitor_ticks 95 started) \<and>
   fal_install_progress (monitor_ticks 95 started) \<le> fal_install_progress (monitor_ticks (Suc 95) started) \<and>
   fal_install_progress (monitor_ticks 95 started) \<le> 90 \<and>
   fal_install_progress started < fal_install_progress (monitor_ticks 95 started)"
proof -
  have h: "fal_install_in_progress started" by simp
  have p: "fal_install_progress (monitor_ticks 95 started) = 90"
    using monitor_ticks_running [OF h, of 95] by simp
  show ?thesis using h p monitor_progress_capped [OF h, of 95] by simp
qed

section \<open>The worker: stages\<close>

lemma now_exec [simp]: "now (exec f r) = f (now r)"
  by (simp add: exec_def)

lemma history_exec [simp]: "history (exec f r) = history r @ [f (now r)]"
  by (simp add: history_def exec_def)

lemma history_start [simp]: "history (Run s []) = [s]"
  by (simp add: history_def)

lemma install_waiting_launched:
  "(install_waiting env s \<noteq> None) = launched env"
  by (auto simp: install_waiting_def install_prelude_def install_spawn_def launched_def
      prelude_ok_def Let_def split: sum.splits option.splits list.splits)

text \<open>What each stage of the worker leaves in the five installation properties.\<close>

lemma install_prelude_now:
  "install_prelude env r = Inr (p, cmd, r') \<Longrightarrow>
     fal_install_progress (now r') = fal_install_progress (now r) \<and>
     fal_install_in_progress (now r') = fal_install_in_progress (now r) \<and>
     fal_install_log (now r') = fal_install_log (now r) \<and>
     fal_install_success (now r') = fal_install_success (now r) \<and>
     fal_install_pid (now r') = fal_install_pid (now r)"
  by (auto simp: install_prelude_def Let_def split: sum.splits list.splits)

lemma install_prelude_raises:
  "install_prelude env r = Inl (e, r') \<Longrightarrow>
     fal_install_progress (now r') = fal_install_progress (now r) \<and>
     fal_install_in_progress (now r') = fal_install_in_progress (now r) \<and>
     fal_install_log (now r') = fal_install_log (now r) \<and>
     fal_install_success (now r') = fal_install_success (now r) \<and>
     fal_install_pid (now r') = fal_install_pid (now r)"
  by (auto simp: install_prelude_def Let_def split: sum.splits list.splits)

lemma install_prelude_ok:
  "(\<exists>p cmd r'. install_prelude env r = Inr (p, cmd, r')) = prelude_ok env"
  by (auto simp: install_prelude_def prelude_ok_def Let_def split: sum.splits list.splits)

lemma install_spawn_now:
  "install_spawn env r = Inr (pid, r') \<Longrightarrow>
     Popen env = Inr pid \<and> open_log_w env = None \<and>
     fal_install_progress (now r') = fal_install_progress (now r) \<and>
     fal_install_in_progress (now r') = fal_install_in_progress (now r) \<and>
     fal_install_log (now r') = fal_install_log (now r) \<and>
     fal_install_success (now r') = fal_install_success (now r) \<and>
     fal_install_pid (now r') = pid"
  by (auto simp: install_spawn_def Let_def split: sum.splits option.splits)

lemma install_spawn_raises:
  "install_spawn env r = Inl (e, r') \<Longrightarrow>
     r' = r \<and> (open_log_w env = Some e \<or> open_log_w env = None \<and> Popen env = Inl e)"
  by (auto simp: install_spawn_def Let_def split: sum.splits option.splits)

lemma install_collect_now:
  "install_collect env rc r = Inr r' \<Longrightarrow>
     (\<exists>out. read_log env = Inr out \<and> fal_install_log (now r') = string_prop out) \<and>
     fal_install_success (now r') = (rc = 0) \<and>
     fal_install_progress (now r') = fal_install_progress (now r) \<and>
     fal_install_in_progress (now r') = fal_install_in_progress (now r) \<and>
     fal_install_pid (now r') = fal_install_pid (now r)"
  by (auto simp: install_collect_def Let_def split: sum.splits if_splits)

lemma install_collect_raises:
  "install_collect env rc r = Inl (e, r') \<Longrightarrow>
     read_log env = Inl e \<and>
     fal_install_log (now r') = fal_install_log (now r) \<and>
     fal_install_success (now r') = fal_install_success (now r) \<and>
     fal_install_progress (now r') = fal_install_progress (now r) \<and>
     fal_install_in_progress (now r') = fal_install_in_progress (now r) \<and>
     fal_install_pid (now r') = fal_install_pid (now r)"
  by (auto simp: install_collect_def Let_def split: sum.splits)

lemma install_except_now:
  "fal_install_log (now (install_except e r)) = string_prop (''Exception during installation: '' @ exc_str e)"
  "\<not> fal_install_success (now (install_except e r))"
  "fal_install_progress (now (install_except e r)) = fal_install_progress (now r)"
  "fal_install_in_progress (now (install_except e r)) = fal_install_in_progress (now r)"
  "fal_install_pid (now (install_except e r)) = fal_install_pid (now r)"
  by (simp_all add: install_except_def Let_def)

lemma install_finish_now:
  "\<not> fal_install_in_progress (now (install_finish env p r))"
  "fal_install_progress (now (install_finish env p r)) =
     (if fal_install_success (now r) then 100 else 0)"
  "fal_install_log (now (install_finish env p r)) = fal_install_log (now r)"
  "fal_install_success (now (install_finish env p r)) = fal_install_success (now r)"
  "fal_install_pid (now (install_finish env p r)) = fal_install_pid (now r)"
  by (simp_all add: install_finish_def Let_def split: option.splits)


section \<open>The worker: how a run ends\<close>

text \<open>The five ways through \<^verbatim>\<open>_install_process\<close>.\<close>

lemma install_process_cases [consumes 0, case_names escaped launch_failed blocked read_failed collected]:
  obtains
    (escaped) e r where
      "install_prelude env (Run s []) = Inl (e, r)"
      "install_process env s = Raised e r"
  | (launch_failed) p cmd r0 e where
      "install_prelude env (Run s []) = Inr (p, cmd, r0)"
      "install_spawn env r0 = Inl (e, r0)"
      "install_process env s = Returned (install_finish env p (install_except e r0))"
  | (blocked) p cmd r0 pid rw where
      "install_prelude env (Run s []) = Inr (p, cmd, r0)"
      "install_spawn env r0 = Inr (pid, rw)"
      "process_wait env = None"
      "install_process env s = Blocked rw"
  | (read_failed) p cmd r0 pid rw rc e r1 where
      "install_prelude env (Run s []) = Inr (p, cmd, r0)"
      "install_spawn env r0 = Inr (pid, rw)"
      "process_wait env = Some rc"
      "install_collect env rc rw = Inl (e, r1)"
      "install_process env s = Returned (install_finish env p (install_except e r1))"
  | (collected) p cmd r0 pid rw rc r1 where
      "install_prelude env (Run s []) = Inr (p, cmd, r0)"
      "install_spawn env r0 = Inr (pid, rw)"
      "process_wait env = Some rc"
      "install_collect env rc rw = Inr r1"
      "install_process env s = Returned (install_finish env p r1)"
proof (cases "install_prelude env (Run s [])")
  case (Inl a)
  then show ?thesis
    using escaped by (cases a) (simp add: install_process_def)
next
  case (Inr b)
  then obtain p cmd r0 where pre: "install_prelude env (Run s []) = Inr (p, cmd, r0)"
    by (cases b) auto
  show ?thesis
  proof (cases "install_spawn env r0")
    case (Inl a)
    then obtain e r' where sp: "install_spawn env r0 = Inl (e, r')" by (cases a) auto
    then have "r' = r0" by (simp add: install_spawn_raises)
    with pre sp show ?thesis
      using launch_failed by (simp add: install_process_def)
  next
    case (Inr c)
    then obtain pid rw where sp: "install_spawn env r0 = Inr (pid, rw)" by (cases c) auto
    show ?thesis
    proof (cases "process_wait env")
      case None
      with pre sp show ?thesis using blocked by (simp add: install_process_def)
    next
      case (Some rc)
      show ?thesis
      proof (cases "install_collect env rc rw")
        case (Inl a)
        then obtain e r1 where "install_collect env rc rw = Inl (e, r1)" by (cases a) auto
        with pre sp Some show ?thesis using read_failed by (simp add: install_process_def)
      next
        case (Inr r1)
        with pre sp Some show ?thesis using collected by (simp add: install_process_def)
      qed
    qed
  qed
qed

lemma install_waiting_Some:
  "install_prelude env (Run s []) = Inr (p, cmd, r0) \<Longrightarrow> install_spawn env r0 = Inr (pid, rw) \<Longrightarrow>
     install_waiting env s = Some rw"
  by (simp add: install_waiting_def)

text \<open>A run that returns has marked the installation complete.\<close>

lemma install_process_returned_done:
  assumes "returned (install_process env s)"
  shows "\<not> fal_install_in_progress (final (install_process env s)) \<and>
         fal_install_progress (final (install_process env s)) =
           (if fal_install_success (final (install_process env s)) then 100 else 0)"
  using assms
  by (cases env s rule: install_process_cases) (simp_all add: final_def install_finish_now)

text \<open>Which runs return, die, or block.\<close>

lemma install_process_outcome:
  "returned (install_process env s) =
     (prelude_ok env \<and> (launched env \<longrightarrow> process_wait env \<noteq> None))"
  "(\<exists>e r. install_process env s = Raised e r) = (\<not> prelude_ok env)"
  "(\<exists>r. install_process env s = Blocked r) = (launched env \<and> process_wait env = None)"
proof -
  show "returned (install_process env s) =
     (prelude_ok env \<and> (launched env \<longrightarrow> process_wait env \<noteq> None))"
  proof (cases env s rule: install_process_cases)
    case (escaped e r)
    then show ?thesis using install_prelude_ok [of env "Run s []"] by auto
  next
    case (launch_failed p cmd r0 e)
    then show ?thesis
      using install_prelude_ok [of env "Run s []"] install_spawn_raises [of env r0 e r0]
      by (auto simp: launched_def)
  next
    case (blocked p cmd r0 pid rw)
    then show ?thesis
      using install_prelude_ok [of env "Run s []"] install_spawn_now [of env r0 pid rw]
      by (auto simp: launched_def)
  next
    case (read_failed p cmd r0 pid rw rc e r1)
    then show ?thesis using install_prelude_ok [of env "Run s []"] by auto
  next
    case (collected p cmd r0 pid rw rc r1)
    then show ?thesis using install_prelude_ok [of env "Run s []"] by auto
  qed
  show "(\<exists>e r. install_process env s = Raised e r) = (\<not> prelude_ok env)"
    using install_prelude_ok [of env "Run s []"]
    by (cases env s rule: install_process_cases) auto
  show "(\<exists>r. install_process env s = Blocked r) = (launched env \<and> process_wait env = None)"
  proof (cases env s rule: install_process_cases)
    case (launch_failed p cmd r0 e)
    then show ?thesis
      using install_spawn_raises [of env r0 e r0] by (auto simp: launched_def)
  next
    case (blocked p cmd r0 pid rw)
    then show ?thesis
      using install_prelude_ok [of env "Run s []"] install_spawn_now [of env r0 pid rw]
      by (auto simp: launched_def)
  qed (insert install_prelude_ok [of env "Run s []"], auto simp: launched_def)
qed


lemma install_prelude_tempfile:
  "NamedTemporaryFile env = Inl e \<Longrightarrow>
     install_prelude env r = Inl (e, exec (log_debug ''Installation thread started'') r)"
  by (simp add: install_prelude_def Let_def)

text \<open>An exception raised inside the \<^verbatim>\<open>try\<close> before the subprocess runs is caught.\<close>

lemma install_process_launch_caught:
  assumes "prelude_ok env"
    and "open_log_w env = Some e \<or> open_log_w env = None \<and> Popen env = Inl e"
  shows "returned (install_process env s) \<and>
         fal_install_log (final (install_process env s)) =
           string_prop (''Exception during installation: '' @ exc_str e) \<and>
         \<not> fal_install_success (final (install_process env s)) \<and>
         \<not> fal_install_in_progress (final (install_process env s)) \<and>
         fal_install_progress (final (install_process env s)) = 0"
proof (cases env s rule: install_process_cases)
  case (escaped e' r)
  then show ?thesis using assms(1) install_prelude_ok [of env "Run s []"] by auto
next
  case (launch_failed p cmd r0 e')
  then have "e' = e"
    using assms(2) install_spawn_raises [of env r0 e' r0] by auto
  with launch_failed show ?thesis
    by (simp add: final_def install_finish_now install_except_now)
next
  case (blocked p cmd r0 pid rw)
  then show ?thesis using assms(2) install_spawn_now [of env r0 pid rw] by auto
next
  case (read_failed p cmd r0 pid rw rc e' r1)
  then show ?thesis using assms(2) install_spawn_now [of env r0 pid rw] by auto
next
  case (collected p cmd r0 pid rw rc r1)
  then show ?thesis using assms(2) install_spawn_now [of env r0 pid rw] by auto
qed

text \<open>An exception raised while the captured output is read back is caught.\<close>

lemma install_process_read_caught:
  assumes "launched env" and "process_wait env = Some rc" and "read_log env = Inl e"
  shows "returned (install_process env s) \<and>
         fal_install_log (final (install_process env s)) =
           string_prop (''Exception during installation: '' @ exc_str e) \<and>
         \<not> fal_install_success (final (install_process env s)) \<and>
         \<not> fal_install_in_progress (final (install_process env s)) \<and>
         fal_install_progress (final (install_process env s)) = 0"
proof (cases env s rule: install_process_cases)
  case (escaped e' r)
  then show ?thesis using assms(1) install_prelude_ok [of env "Run s []"]
    by (auto simp: launched_def)
next
  case (launch_failed p cmd r0 e')
  then show ?thesis using assms(1) install_spawn_raises [of env r0 e' r0]
    by (auto simp: launched_def)
next
  case (blocked p cmd r0 pid rw)
  then show ?thesis using assms(2) by simp
next
  case (read_failed p cmd r0 pid rw rc' e' r1)
  then have "e' = e" using assms(3) install_collect_raises [of env rc' rw e' r1] by simp
  with read_failed show ?thesis
    by (simp add: final_def install_finish_now install_except_now)
next
  case (collected p cmd r0 pid rw rc' r1)
  then show ?thesis using assms(3) install_collect_now [of env rc' rw r1] by simp
qed

text \<open>The subprocess exits and its output is read back: the result follows the exit code,
  and the log property holds the output up to its first NUL character.\<close>

lemma install_process_exit_code:
  assumes "launched env" and "process_wait env = Some rc" and "read_log env = Inr output"
  shows "returned (install_process env s) \<and>
         fal_install_log (final (install_process env s)) = string_prop output \<and>
         fal_install_success (final (install_process env s)) = (rc = 0) \<and>
         \<not> fal_install_in_progress (final (install_process env s)) \<and>
         fal_install_progress (final (install_process env s)) = (if rc = 0 then 100 else 0)"
proof (cases env s rule: install_process_cases)
  case (escaped e' r)
  then show ?thesis using assms(1) install_prelude_ok [of env "Run s []"]
    by (auto simp: launched_def)
next
  case (launch_failed p cmd r0 e')
  then show ?thesis using assms(1) install_spawn_raises [of env r0 e' r0]
    by (auto simp: launched_def)
next
  case (blocked p cmd r0 pid rw)
  then show ?thesis using assms(2) by simp
next
  case (read_failed p cmd r0 pid rw rc' e' r1)
  then show ?thesis using assms(3) install_collect_raises [of env rc' rw e' r1] by simp
next
  case (collected p cmd r0 pid rw rc' r1)
  then have "rc' = rc" and "fal_install_log (now r1) = string_prop output"
    and "fal_install_success (now r1) = (rc = 0)"
    using assms(2,3) install_collect_now [of env rc' rw r1] by auto
  with collected show ?thesis
    by (simp add: final_def install_finish_now)
qed

text \<open>The subprocess never exits: the worker stays in \<^verbatim>\<open>process.wait()\<close>, the installation
  stays in progress.\<close>

lemma install_process_blocked:
  assumes "launched env" and "process_wait env = None"
  shows "\<exists>r. install_process env s = Blocked r \<and>
           fal_install_in_progress (now r) = fal_install_in_progress s \<and>
           fal_install_log (now r) = fal_install_log s"
proof (cases env s rule: install_process_cases)
  case (escaped e' r)
  then show ?thesis using assms(1) install_prelude_ok [of env "Run s []"]
    by (auto simp: launched_def)
next
  case (launch_failed p cmd r0 e')
  then show ?thesis using assms(1) install_spawn_raises [of env r0 e' r0]
    by (auto simp: launched_def)
next
  case (blocked p cmd r0 pid rw)
  then show ?thesis
    using install_prelude_now [of env "Run s []" p cmd r0] install_spawn_now [of env r0 pid rw]
    by simp
qed (use assms(2) in simp_all)

text \<open>
  Claim C1. The claim says that every exception raised inside the worker is caught and
  that the worker never ends with \<^verbatim>\<open>fal_install_in_progress\<close> still true. The code creates
  the temporary file before its \<^verbatim>\<open>try\<close> statement: when \<^verbatim>\<open>NamedTemporaryFile\<close> raises, the
  worker ends with that exception after its first log line, and the in-progress flag, the
  log and the success flag are what they were when it started.
\<close>

theorem install_process_tempfile_uncaught:
  assumes "NamedTemporaryFile env = Inl e"
  shows "install_process env s =
           Raised e (exec (log_debug ''Installation thread started'') (Run s [])) \<and>
         fal_install_in_progress (final (install_process env s)) = fal_install_in_progress s \<and>
         fal_install_log (final (install_process env s)) = fal_install_log s \<and>
         fal_install_success (final (install_process env s)) = fal_install_success s"
  using install_prelude_tempfile [OF assms, of "Run s []"]
  by (simp add: install_process_def final_def)

text \<open>At the scene of a started installation, with a temporary directory that refuses the
  file: the worker does not return and the installation stays in progress.\<close>

theorem install_process_tempfile_uncaught_witness:
  "NamedTemporaryFile env_tmp_denied = Inl (PyExc ''PermissionError'' ''[Errno 13] Permission denied'') \<and>
   \<not> returned (install_process env_tmp_denied started) \<and>
   fal_install_in_progress (final (install_process env_tmp_denied started)) \<and>
   fal_install_log (final (install_process env_tmp_denied started)) = []"
proof -
  have h: "NamedTemporaryFile env_tmp_denied =
             Inl (PyExc ''PermissionError'' ''[Errno 13] Permission denied'')"
    by (simp add: env_tmp_denied_def)
  show ?thesis using h install_process_tempfile_uncaught [OF h, of started]
    by (simp add: final_def)
qed

text \<open>
  Claim C3. The claim says that after a run in which an exception is raised the scene has
  \<^verbatim>\<open>fal_install_success\<close> false, \<^verbatim>\<open>fal_install_progress\<close> 0 and \<^verbatim>\<open>fal_install_in_progress\<close>
  false. In the run where the temporary file cannot be created the worker ends without
  returning and the installation is still in progress; the polling observer, which keeps
  running on that flag, then moves the progress to 90, where it stays.
\<close>

theorem install_process_failure_left_in_progress:
  "\<not> returned (install_process env_tmp_denied started) \<and>
   fal_install_in_progress (final (install_process env_tmp_denied started)) \<and>
   fal_install_in_progress (monitor_ticks 200 (final (install_process env_tmp_denied started))) \<and>
   fal_install_progress (monitor_ticks 200 (final (install_process env_tmp_denied started))) = 90"
proof -
  let ?t = "final (install_process env_tmp_denied started)"
  have "NamedTemporaryFile env_tmp_denied =
          Inl (PyExc ''PermissionError'' ''[Errno 13] Permission denied'')"
    by (simp add: env_tmp_denied_def)
  from install_prelude_tempfile [OF this, of "Run started []"]
  have out: "\<not> returned (install_process env_tmp_denied started)"
    and run: "fal_install_in_progress ?t" and p: "fal_install_progress ?t = 0"
    by (simp_all add: install_process_def final_def)
  from monitor_ticks_running [OF run, of 200] p out run show ?thesis by simp
qed

section \<open>The worker: the result of a run whose subprocess exits with 0\<close>

text \<open>The example runs.\<close>

lemma env_facts:
  "launched env_ok" "process_wait env_ok = Some 0"
  "read_log env_ok = Inr ''Successfully installed fal-1.0''"
  "launched env_undecodable" "process_wait env_undecodable = Some 0"
  "read_log env_undecodable = Inl (PyExc ''UnicodeDecodeError'' ''invalid start byte'')"
  "prelude_ok env_no_launch" "open_log_w env_no_launch = None"
  "Popen env_no_launch = Inl (PyExc ''FileNotFoundError'' ''[Errno 2] No such file or directory'')"
  "\<not> launched env_no_launch"
  "launched env_exit1" "process_wait env_exit1 = Some 1"
  "launched env_nul_output" "process_wait env_nul_output = Some 0"
  "read_log env_nul_output = Inr [CHR ''a'', CHR ''b'', CHR 0x00, CHR ''c'', CHR ''d'']"
  by (simp_all add: env_ok_def env_undecodable_def env_no_launch_def env_exit1_def
      env_nul_output_def launched_def prelude_ok_def)

text \<open>The claim that every run whose subprocess exits with code 0 ends in success fails
  where the captured output cannot be read back: the handler stores the exception text,
  and the run ends with \<^verbatim>\<open>fal_install_success\<close> false and \<^verbatim>\<open>fal_install_progress\<close> 0.\<close>

theorem install_process_exit0_undecodable:
  "launched env_undecodable \<and> process_wait env_undecodable = Some 0 \<and>
   returned (install_process env_undecodable started) \<and>
   \<not> fal_install_success (final (install_process env_undecodable started)) \<and>
   fal_install_progress (final (install_process env_undecodable started)) = 0 \<and>
   fal_install_log (final (install_process env_undecodable started)) =
     ''Exception during installation: invalid start byte''"
  using install_process_read_caught [OF env_facts(4) env_facts(5) env_facts(6), of started]
  by (simp add: env_facts string_prop_def)

text \<open>
  Claim C2, amended. For every run of the worker that launches the subprocess, whose
  subprocess exits with code 0 and whose captured output is then read back without an
  exception, the worker returns and the scene has \<^verbatim>\<open>fal_install_success\<close> true,
  \<^verbatim>\<open>fal_install_progress\<close> 100 and \<^verbatim>\<open>fal_install_in_progress\<close> false.
\<close>

theorem install_process_success:
  assumes "launched env" and "process_wait env = Some 0" and "read_log env = Inr out"
  shows "returned (install_process env s) \<and>
         fal_install_success (final (install_process env s)) \<and>
         fal_install_progress (final (install_process env s)) = 100 \<and>
         \<not> fal_install_in_progress (final (install_process env s))"
  using install_process_exit_code [OF assms] by simp

text \<open>The run in which pip installs the package, from the scene of a started installation.\<close>

theorem install_process_success_witness:
  "launched env_ok \<and> process_wait env_ok = Some 0 \<and>
   fal_install_in_progress started \<and>
   returned (install_process env_ok started) \<and>
   fal_install_success (final (install_process env_ok started)) \<and>
   fal_install_progress (final (install_process env_ok started)) = 100 \<and>
   \<not> fal_install_in_progress (final (install_process env_ok started))"
  using install_process_success [OF env_facts(1) env_facts(2) env_facts(3), of started]
  by (simp add: env_facts)

text \<open>The run in which pip exits with 1: the installation ends as failed, with the
  output of pip in the log.\<close>

lemma install_process_exit1_example:
  "returned (install_process env_exit1 started) \<and>
   \<not> fal_install_success (final (install_process env_exit1 started)) \<and>
   fal_install_progress (final (install_process env_exit1 started)) = 0 \<and>
   \<not> fal_install_in_progress (final (install_process env_exit1 started)) \<and>
   fal_install_log (final (install_process env_exit1 started)) = ''ERROR: No matching distribution''"
proof -
  have "read_log env_exit1 = Inr ''ERROR: No matching distribution''"
    by (simp add: env_exit1_def)
  from install_process_exit_code [OF env_facts(11) env_facts(12) this, of started]
  show ?thesis by (simp add: string_prop_def)
qed

section \<open>The worker: the log along a run\<close>

lemma history_nonempty [simp]: "history r \<noteq> []"
  by (simp add: history_def)

lemma last_history [simp]: "last (history r) = now r"
  by (simp add: history_def)

lemma now_in_history [simp]: "now r \<in> set (history r)"
  by (simp add: history_def)

lemma changes_snoc:
  "xs \<noteq> [] \<Longrightarrow> changes (xs @ [y]) = changes xs + (if last xs \<noteq> y then 1 else 0)"
  by (induction xs rule: changes.induct) auto

lemma changes_append_const:
  "xs \<noteq> [] \<Longrightarrow> \<forall>y \<in> set ys. y = last xs \<Longrightarrow> changes (xs @ ys) = changes xs"
proof (induction ys arbitrary: xs)
  case Nil
  then show ?case by simp
next
  case (Cons y ys)
  have "changes ((xs @ [y]) @ ys) = changes (xs @ [y])"
    using Cons.prems by (intro Cons.IH) auto
  then show ?case using Cons.prems by (simp add: changes_snoc)
qed

lemma changes_const: "\<forall>y \<in> set ys. y = v \<Longrightarrow> changes ys = 0"
  by (induction ys rule: changes.induct) auto

lemma changes_append_one:
  assumes "xs \<noteq> []" "ys \<noteq> []" "\<forall>y \<in> set ys. y = v"
  shows "changes (xs @ ys) = changes xs + (if last xs \<noteq> v then 1 else 0)"
proof -
  obtain y ys' where ys: "ys = y # ys'" using assms(2) by (cases ys) auto
  then have y: "y = v" and rest: "\<forall>z \<in> set ys'. z = last (xs @ [y])"
    using assms(3) by auto
  have "changes ((xs @ [y]) @ ys') = changes (xs @ [y])"
    using rest by (intro changes_append_const) auto
  then show ?thesis using ys y assms(1) by (simp add: changes_snoc)
qed

text \<open>Runs that leave the log alone, and runs that write it from one statement on.\<close>

lemma quiet_refl [simp]: "quiet r r"
  by (simp add: quiet_def)

lemma quiet_now: "quiet r r' \<Longrightarrow> fal_install_log (now r') = fal_install_log (now r)"
proof -
  assume "quiet r r'"
  then obtain post where h: "history r' = history r @ post"
    and q: "\<forall>t \<in> set post. fal_install_log t = fal_install_log (now r)"
    by (auto simp: quiet_def)
  have "now r' = last (history r @ post)" using h last_history [of r'] by simp
  then show ?thesis using q by (cases "post = []") auto
qed

lemma quiet_exec:
  assumes "quiet r r'" and "fal_install_log (g (now r')) = fal_install_log (now r')"
  shows "quiet r (exec g r')"
proof -
  from assms(1) obtain post where h: "history r' = history r @ post"
    and q: "\<forall>t \<in> set post. fal_install_log t = fal_install_log (now r)"
    by (auto simp: quiet_def)
  have "history (exec g r') = history r @ (post @ [g (now r')])" using h by simp
  moreover have "\<forall>t \<in> set (post @ [g (now r')]). fal_install_log t = fal_install_log (now r)"
    using q assms(2) quiet_now [OF assms(1)] by auto
  ultimately show ?thesis unfolding quiet_def by blast
qed

lemma quiet_trans:
  assumes "quiet r r'" and "quiet r' r''"
  shows "quiet r r''"
proof -
  from assms(1) obtain p1 where h1: "history r' = history r @ p1"
    and q1: "\<forall>t \<in> set p1. fal_install_log t = fal_install_log (now r)"
    by (auto simp: quiet_def)
  from assms(2) obtain p2 where h2: "history r'' = history r' @ p2"
    and q2: "\<forall>t \<in> set p2. fal_install_log t = fal_install_log (now r')"
    by (auto simp: quiet_def)
  have "history r'' = history r @ (p1 @ p2)" using h1 h2 by simp
  moreover have "\<forall>t \<in> set (p1 @ p2). fal_install_log t = fal_install_log (now r)"
    using q1 q2 quiet_now [OF assms(1)] by auto
  ultimately show ?thesis unfolding quiet_def by blast
qed

lemma quiet_wrote:
  assumes "quiet r r'" and "wrote r' r'' v"
  shows "wrote r r'' v"
proof -
  from assms(1) obtain p1 where h1: "history r' = history r @ p1"
    and q1: "\<forall>t \<in> set p1. fal_install_log t = fal_install_log (now r)"
    by (auto simp: quiet_def)
  from assms(2) obtain pre post where h2: "history r'' = history r' @ pre @ post"
    and ne: "post \<noteq> []"
    and q2: "\<forall>t \<in> set pre. fal_install_log t = fal_install_log (now r')"
    and q3: "\<forall>t \<in> set post. fal_install_log t = v"
    by (auto simp: wrote_def)
  have "history r'' = history r @ (p1 @ pre) @ post" using h1 h2 by simp
  moreover have "\<forall>t \<in> set (p1 @ pre). fal_install_log t = fal_install_log (now r)"
    using q1 q2 quiet_now [OF assms(1)] by auto
  ultimately show ?thesis using ne q3 unfolding wrote_def by blast
qed

lemma wrote_now: "wrote r r' v \<Longrightarrow> fal_install_log (now r') = v"
proof -
  assume "wrote r r' v"
  then obtain pre post where h: "history r' = history r @ pre @ post" and ne: "post \<noteq> []"
    and q: "\<forall>t \<in> set post. fal_install_log t = v"
    by (auto simp: wrote_def)
  have "now r' = last (history r @ pre @ post)" using h last_history [of r'] by simp
  then have "now r' = last post" using ne by simp
  then show ?thesis using q ne by auto
qed

lemma wrote_quiet:
  assumes "wrote r r' v" and "quiet r' r''"
  shows "wrote r r'' v"
proof -
  from assms(1) obtain pre post where h1: "history r' = history r @ pre @ post"
    and ne: "post \<noteq> []"
    and q1: "\<forall>t \<in> set pre. fal_install_log t = fal_install_log (now r)"
    and q2: "\<forall>t \<in> set post. fal_install_log t = v"
    by (auto simp: wrote_def)
  from assms(2) obtain p2 where h2: "history r'' = history r' @ p2"
    and q3: "\<forall>t \<in> set p2. fal_install_log t = fal_install_log (now r')"
    by (auto simp: quiet_def)
  have "history r'' = history r @ pre @ (post @ p2)" using h1 h2 by simp
  moreover have "\<forall>t \<in> set (post @ p2). fal_install_log t = v"
    using q2 q3 wrote_now [OF assms(1)] by auto
  ultimately show ?thesis using ne q1 unfolding wrote_def by blast
qed

lemma quiet_changes:
  assumes "quiet r r'"
  shows "changes (map fal_install_log (history r')) = changes (map fal_install_log (history r))"
proof -
  from assms obtain post where h: "history r' = history r @ post"
    and q: "\<forall>t \<in> set post. fal_install_log t = fal_install_log (now r)"
    by (auto simp: quiet_def)
  have "changes (map fal_install_log (history r) @ map fal_install_log post) =
          changes (map fal_install_log (history r))"
    using q by (intro changes_append_const) (auto simp: last_map)
  then show ?thesis using h by simp
qed

lemma quiet_all:
  assumes "quiet r r'" and "\<forall>t \<in> set (history r). fal_install_log t = v"
  shows "\<forall>t \<in> set (history r'). fal_install_log t = v"
proof -
  from assms(1) obtain post where h: "history r' = history r @ post"
    and q: "\<forall>t \<in> set post. fal_install_log t = fal_install_log (now r)"
    by (auto simp: quiet_def)
  have "fal_install_log (now r) = v" using assms(2) now_in_history [of r] by blast
  then show ?thesis using h q assms(2) by auto
qed

lemma quiet_extends: "quiet r r' \<Longrightarrow> \<exists>post. history r' = history r @ post"
  by (auto simp: quiet_def)

lemma wrote_extends: "wrote r r' v \<Longrightarrow> \<exists>post. history r' = history r @ post"
  by (auto simp: wrote_def)

lemma wrote_changes:
  assumes "wrote r r' v"
  shows "changes (map fal_install_log (history r')) =
           changes (map fal_install_log (history r)) +
             (if fal_install_log (now r) \<noteq> v then 1 else 0)"
proof -
  from assms obtain pre post where h: "history r' = history r @ pre @ post"
    and ne: "post \<noteq> []"
    and q1: "\<forall>t \<in> set pre. fal_install_log t = fal_install_log (now r)"
    and q2: "\<forall>t \<in> set post. fal_install_log t = v"
    by (auto simp: wrote_def)
  let ?xs = "map fal_install_log (history r)"
  let ?ps = "map fal_install_log pre"
  let ?qs = "map fal_install_log post"
  have l: "last ?xs = fal_install_log (now r)" by (simp add: last_map)
  have a: "changes (?xs @ ?ps) = changes ?xs"
    using q1 l by (intro changes_append_const) auto
  have l2: "last (?xs @ ?ps) = fal_install_log (now r)"
    using q1 l by (cases "pre = []") (auto simp: last_map)
  have "changes ((?xs @ ?ps) @ ?qs) = changes (?xs @ ?ps) + (if last (?xs @ ?ps) \<noteq> v then 1 else 0)"
    using ne q2 by (intro changes_append_one) auto
  with a l2 h show ?thesis by simp
qed


lemma wrote_exec_write:
  assumes "quiet r r'" and "fal_install_log (g (now r')) = v"
  shows "wrote r (exec g r') v"
proof -
  from assms(1) obtain pre where h: "history r' = history r @ pre"
    and q: "\<forall>t \<in> set pre. fal_install_log t = fal_install_log (now r)"
    by (auto simp: quiet_def)
  have "history (exec g r') = history r @ pre @ [g (now r')]" using h by simp
  moreover have "\<forall>t \<in> set [g (now r')]. fal_install_log t = v" using assms(2) by simp
  ultimately show ?thesis using q unfolding wrote_def by blast
qed

lemma wrote_exec_keep:
  assumes "wrote r r' v" and "fal_install_log (g (now r')) = fal_install_log (now r')"
  shows "wrote r (exec g r') v"
proof -
  have "quiet r' (exec g r')"
    using quiet_refl [of r'] assms(2) by (rule quiet_exec)
  with assms(1) show ?thesis by (rule wrote_quiet)
qed

lemma install_prelude_quiet:
  "install_prelude env r = Inr (p, cmd, r') \<Longrightarrow> quiet r r'"
  "install_prelude env r = Inl (e, r') \<Longrightarrow> quiet r r'"
  by (auto simp: install_prelude_def Let_def intro!: quiet_exec split: sum.splits list.splits)

lemma install_spawn_quiet:
  "install_spawn env r = Inr (pid, r') \<Longrightarrow> quiet r r'"
  by (auto simp: install_spawn_def Let_def intro!: quiet_exec split: sum.splits option.splits)

lemma install_collect_quiet:
  "install_collect env rc r = Inl (e, r') \<Longrightarrow> quiet r r'"
  by (auto simp: install_collect_def Let_def intro!: quiet_exec split: sum.splits)

lemma install_collect_wrote:
  assumes "install_collect env rc r = Inr r'" and "read_log env = Inr out"
  shows "wrote r r' (string_prop out)"
proof -
  have w: "wrote r (exec g (exec (\<lambda>s. s\<lparr>fal_install_success := b\<rparr>)
             (exec (\<lambda>s. s\<lparr>fal_install_log := string_prop out\<rparr>)
               (exec (log_debug m1) (exec (log_debug m2) r))))) (string_prop out)"
    if "\<And>s. fal_install_log (g s) = fal_install_log s" for g b m1 m2
    by (rule wrote_exec_keep, rule wrote_exec_keep, rule wrote_exec_write,
        rule quiet_exec, rule quiet_exec, rule quiet_refl) (simp_all add: that)
  show ?thesis
  proof (cases "rc = 0")
    case True
    then have "r' = exec (log_info ''FAL package installation completed successfully!'')
        (exec (\<lambda>s. s\<lparr>fal_install_success := True\<rparr>)
          (exec (\<lambda>s. s\<lparr>fal_install_log := string_prop out\<rparr>)
            (exec (log_debug (''Captured '' @ str_nat (length out) @ '' bytes of log output''))
              (exec (log_debug (''Pip process completed with return code: '' @ str_int rc)) r))))"
      using assms by (simp add: install_collect_def Let_def)
    then show ?thesis using w [of "log_info _"] by simp
  next
    case False
    then have "r' = exec (log_error (''FAL package installation failed with code '' @ str_int rc))
        (exec (\<lambda>s. s\<lparr>fal_install_success := False\<rparr>)
          (exec (\<lambda>s. s\<lparr>fal_install_log := string_prop out\<rparr>)
            (exec (log_debug (''Captured '' @ str_nat (length out) @ '' bytes of log output''))
              (exec (log_debug (''Pip process completed with return code: '' @ str_int rc)) r))))"
      using assms by (simp add: install_collect_def Let_def)
    then show ?thesis using w [of "log_error _"] by simp
  qed
qed

lemma install_except_wrote:
  "wrote r (install_except e r) (string_prop (''Exception during installation: '' @ exc_str e))"
  unfolding install_except_def Let_def
  by (rule wrote_exec_keep, rule wrote_exec_write, rule quiet_exec, rule quiet_refl) simp_all

lemma install_finish_quiet:
  "quiet r (install_finish env p r)"
  unfolding install_finish_def Let_def
  by (cases "unlink env") (auto intro!: quiet_exec)


lemma install_waiting_None:
  "install_prelude env (Run s []) = Inl (e, r) \<Longrightarrow> install_waiting env s = None"
  "install_prelude env (Run s []) = Inr (p, cmd, r0) \<Longrightarrow> install_spawn env r0 = Inl (e, r') \<Longrightarrow>
     install_waiting env s = None"
  by (simp_all add: install_waiting_def)

text \<open>The log along a whole run: up to the wait it is untouched, and over the whole run it
  is either untouched or written from one statement on.\<close>

lemma install_process_trace:
  "(\<forall>rw. install_waiting env s = Some rw \<longrightarrow>
      quiet (Run s []) rw \<and>
      (quiet rw (run_of (install_process env s)) \<or>
       (\<exists>v. wrote rw (run_of (install_process env s)) v))) \<and>
   (quiet (Run s []) (run_of (install_process env s)) \<or>
    (\<exists>v. wrote (Run s []) (run_of (install_process env s)) v))"
proof (cases env s rule: install_process_cases)
  case (escaped e r)
  then show ?thesis
    using install_prelude_quiet(2) [of env "Run s []" e r] install_waiting_None(1) [of env s e r]
    by simp
next
  case (launch_failed p cmd r0 e)
  have q0: "quiet (Run s []) r0"
    using launch_failed(1) by (rule install_prelude_quiet(1))
  have "wrote (Run s []) (install_except e r0) (string_prop (''Exception during installation: '' @ exc_str e))"
    using q0 install_except_wrote by (rule quiet_wrote)
  then have "wrote (Run s []) (install_finish env p (install_except e r0))
               (string_prop (''Exception during installation: '' @ exc_str e))"
    using install_finish_quiet by (rule wrote_quiet)
  then show ?thesis
    using launch_failed install_waiting_None(2) [of env s p cmd r0 e r0] by auto
next
  case (blocked p cmd r0 pid rw)
  have q0: "quiet (Run s []) r0"
    using blocked(1) by (rule install_prelude_quiet(1))
  have "quiet r0 rw" using blocked(2) by (rule install_spawn_quiet)
  with q0 have "quiet (Run s []) rw" by (rule quiet_trans)
  then show ?thesis
    using blocked install_waiting_Some [of env s p cmd r0 pid rw] by auto
next
  case (read_failed p cmd r0 pid rw rc e r1)
  have q0: "quiet (Run s []) r0"
    using read_failed(1) by (rule install_prelude_quiet(1))
  have "quiet r0 rw" using read_failed(2) by (rule install_spawn_quiet)
  with q0 have qw: "quiet (Run s []) rw" by (rule quiet_trans)
  have "quiet rw r1" using read_failed(4) by (rule install_collect_quiet)
  then have "wrote rw (install_except e r1) (string_prop (''Exception during installation: '' @ exc_str e))"
    using install_except_wrote by (rule quiet_wrote)
  then have w: "wrote rw (install_finish env p (install_except e r1))
                  (string_prop (''Exception during installation: '' @ exc_str e))"
    using install_finish_quiet by (rule wrote_quiet)
  with qw have "wrote (Run s []) (install_finish env p (install_except e r1))
                  (string_prop (''Exception during installation: '' @ exc_str e))"
    by (rule quiet_wrote)
  with w qw show ?thesis
    using read_failed install_waiting_Some [of env s p cmd r0 pid rw] by auto
next
  case (collected p cmd r0 pid rw rc r1)
  have q0: "quiet (Run s []) r0"
    using collected(1) by (rule install_prelude_quiet(1))
  have "quiet r0 rw" using collected(2) by (rule install_spawn_quiet)
  with q0 have qw: "quiet (Run s []) rw" by (rule quiet_trans)
  obtain out where rl: "read_log env = Inr out"
    using install_collect_now [OF collected(4)] by blast
  have "wrote rw r1 (string_prop out)" using collected(4) rl by (rule install_collect_wrote)
  then have w: "wrote rw (install_finish env p r1) (string_prop out)"
    using install_finish_quiet by (rule wrote_quiet)
  with qw have "wrote (Run s []) (install_finish env p r1) (string_prop out)"
    by (rule quiet_wrote)
  with w qw show ?thesis
    using collected install_waiting_Some [of env s p cmd r0 pid rw] by auto
qed

lemma install_process_not_returned:
  assumes "\<not> returned (install_process env s)"
  shows "fal_install_log (final (install_process env s)) = fal_install_log s \<and>
         fal_install_in_progress (final (install_process env s)) = fal_install_in_progress s"
  using assms
proof (cases env s rule: install_process_cases)
  case (escaped e r)
  then show ?thesis using install_prelude_raises [of env "Run s []" e r] by (simp add: final_def)
next
  case (blocked p cmd r0 pid rw)
  then show ?thesis
    using install_prelude_now [of env "Run s []" p cmd r0] install_spawn_now [of env r0 pid rw]
    by (simp add: final_def)
qed simp_all

text \<open>The claim that the log is written only after the subprocess has exited, with the
  output of the subprocess, fails in two runs. Where the subprocess cannot be launched,
  no subprocess ever runs and the worker writes the text of the exception into the log.
  Where the output of the subprocess has a NUL character, the log property holds only the
  text before it.\<close>

theorem install_log_without_subprocess:
  "install_waiting env_no_launch started = None \<and>
   returned (install_process env_no_launch started) \<and>
   fal_install_log started = [] \<and>
   fal_install_log (final (install_process env_no_launch started)) =
     ''Exception during installation: [Errno 2] No such file or directory'' \<and>
   launched env_nul_output \<and> process_wait env_nul_output = Some 0 \<and>
   read_log env_nul_output = Inr [CHR ''a'', CHR ''b'', CHR 0x00, CHR ''c'', CHR ''d''] \<and>
   returned (install_process env_nul_output started) \<and>
   fal_install_log (final (install_process env_nul_output started)) = ''ab''"
proof -
  have "install_waiting env_no_launch started = None"
    using install_waiting_launched [of env_no_launch started] env_facts(10) by simp
  moreover have "open_log_w env_no_launch = Some (PyExc ''FileNotFoundError'' ''[Errno 2] No such file or directory'') \<or>
      open_log_w env_no_launch = None \<and>
      Popen env_no_launch = Inl (PyExc ''FileNotFoundError'' ''[Errno 2] No such file or directory'')"
    by (simp add: env_facts)
  from install_process_launch_caught [OF env_facts(7) this, of started]
  have "returned (install_process env_no_launch started) \<and>
        fal_install_log (final (install_process env_no_launch started)) =
          ''Exception during installation: [Errno 2] No such file or directory''"
    by (simp add: string_prop_def)
  moreover have "returned (install_process env_nul_output started) \<and>
        fal_install_log (final (install_process env_nul_output started)) = ''ab''"
    using install_process_exit_code [OF env_facts(13) env_facts(14) env_facts(15), of started]
    by (simp add: string_prop_def)
  ultimately show ?thesis by (simp add: env_facts)
qed

text \<open>
  Claim C7, amended. In every state of a run up to and including the call of
  \<^verbatim>\<open>process.wait()\<close>, \<^verbatim>\<open>fal_install_log\<close> has the value it had when the worker started (the
  empty string after \<^verbatim>\<open>install_package\<close>), and those states begin the history of the whole
  run. Along the whole run the value of the log changes at most once. A run that returns
  has written it: with the captured output when the subprocess exited and the output was
  read back, and with "Exception during installation: " followed by the text of the
  exception when the launch or the reading raised; in both cases the property holds the
  text up to its first NUL character, which is all of it when it has none. A run that
  does not return leaves the log as it was.
\<close>

theorem install_log_written_once:
  "(\<forall>rw. install_waiting env s = Some rw \<longrightarrow>
      (\<forall>t \<in> set (history rw). fal_install_log t = fal_install_log s) \<and>
      (\<exists>post. history (run_of (install_process env s)) = history rw @ post)) \<and>
   changes (map fal_install_log (history (run_of (install_process env s)))) \<le> 1 \<and>
   (\<forall>out. launched env \<and> process_wait env \<noteq> None \<and> read_log env = Inr out \<longrightarrow>
      fal_install_log (final (install_process env s)) = string_prop out \<and>
      (CHR 0x00 \<notin> set out \<longrightarrow> fal_install_log (final (install_process env s)) = out)) \<and>
   (\<forall>e. launched env \<and> process_wait env \<noteq> None \<and> read_log env = Inl e \<longrightarrow>
      fal_install_log (final (install_process env s)) =
        string_prop (''Exception during installation: '' @ exc_str e)) \<and>
   (\<forall>e. prelude_ok env \<and> (open_log_w env = Some e \<or> open_log_w env = None \<and> Popen env = Inl e) \<longrightarrow>
      fal_install_log (final (install_process env s)) =
        string_prop (''Exception during installation: '' @ exc_str e)) \<and>
   (\<not> returned (install_process env s) \<longrightarrow>
      fal_install_log (final (install_process env s)) = fal_install_log s)"
proof (intro conjI allI impI)
  fix rw assume w: "install_waiting env s = Some rw"
  then have q: "quiet (Run s []) rw"
    and c: "quiet rw (run_of (install_process env s)) \<or>
            (\<exists>v. wrote rw (run_of (install_process env s)) v)"
    using install_process_trace [of env s] by auto
  show "\<forall>t \<in> set (history rw). fal_install_log t = fal_install_log s"
    using q by (rule quiet_all) simp
  show "\<exists>post. history (run_of (install_process env s)) = history rw @ post"
    using c quiet_extends wrote_extends by blast
next
  have "quiet (Run s []) (run_of (install_process env s)) \<or>
        (\<exists>v. wrote (Run s []) (run_of (install_process env s)) v)"
    using install_process_trace [of env s] by simp
  then show "changes (map fal_install_log (history (run_of (install_process env s)))) \<le> 1"
    using quiet_changes [of "Run s []" "run_of (install_process env s)"]
      wrote_changes [of "Run s []" "run_of (install_process env s)"]
    by auto
next
  fix out assume "launched env \<and> process_wait env \<noteq> None \<and> read_log env = Inr out"
  then show "fal_install_log (final (install_process env s)) = string_prop out"
    using install_process_exit_code [of env _ out s] by auto
next
  fix out
  assume "launched env \<and> process_wait env \<noteq> None \<and> read_log env = Inr out"
    and "CHR 0x00 \<notin> set out"
  then show "fal_install_log (final (install_process env s)) = out"
    using install_process_exit_code [of env _ out s] by (auto simp: string_prop_id)
next
  fix e assume "launched env \<and> process_wait env \<noteq> None \<and> read_log env = Inl e"
  then show "fal_install_log (final (install_process env s)) =
               string_prop (''Exception during installation: '' @ exc_str e)"
    using install_process_read_caught [of env _ e s] by auto
next
  fix e
  assume "prelude_ok env \<and> (open_log_w env = Some e \<or> open_log_w env = None \<and> Popen env = Inl e)"
  then show "fal_install_log (final (install_process env s)) =
               string_prop (''Exception during installation: '' @ exc_str e)"
    using install_process_launch_caught [of env e s] by auto
next
  assume "\<not> returned (install_process env s)"
  then show "fal_install_log (final (install_process env s)) = fal_install_log s"
    using install_process_not_returned by simp
qed

text \<open>The run in which pip installs the package: the log is empty in every state up to the
  wait, changes at most once, and ends as the output of pip.\<close>

theorem install_log_written_once_witness:
  "launched env_ok \<and> fal_install_log started = [] \<and>
   (case install_waiting env_ok started of
      None \<Rightarrow> False
    | Some rw \<Rightarrow> list_all (\<lambda>t. fal_install_log t = []) (history rw)) \<and>
   changes (map fal_install_log (history (run_of (install_process env_ok started)))) \<le> 1 \<and>
   fal_install_log (final (install_process env_ok started)) = ''Successfully installed fal-1.0''"
proof -
  obtain rw where w: "install_waiting env_ok started = Some rw"
    using install_waiting_launched [of env_ok started] env_facts(1) by auto
  note t = install_log_written_once [of env_ok started]
  have a: "\<forall>t \<in> set (history rw). fal_install_log t = fal_install_log started"
    using t w by blast
  have b: "changes (map fal_install_log (history (run_of (install_process env_ok started)))) \<le> 1"
    using t by blast
  have c: "fal_install_log (final (install_process env_ok started)) = ''Successfully installed fal-1.0''"
    using t env_facts(1,2,3) by (auto simp: string_prop_def)
  show ?thesis using a b c w env_facts(1) by (simp add: list_all_iff)
qed

section \<open>Starting an installation while one is in progress\<close>

text \<open>
  Claim C4. When \<^verbatim>\<open>fal_install_in_progress\<close> is true, the install operator returns
  \<^verbatim>\<open>CANCELLED\<close>, reports the warning "Installation already in progress", and leaves the
  five installation properties (progress, in-progress flag, log, success flag, process id)
  as they were; it starts no thread and does not touch the timer registration.
\<close>

theorem execute_install_rejected:
  assumes "fal_install_in_progress s"
  shows "fst (execute_install s) = ''CANCELLED'' \<and>
         reports (snd (execute_install s)) =
           reports s @ [(''WARNING'', ''Installation already in progress'')] \<and>
         fal_install_progress (snd (execute_install s)) = fal_install_progress s \<and>
         fal_install_in_progress (snd (execute_install s)) = fal_install_in_progress s \<and>
         fal_install_log (snd (execute_install s)) = fal_install_log s \<and>
         fal_install_success (snd (execute_install s)) = fal_install_success s \<and>
         fal_install_pid (snd (execute_install s)) = fal_install_pid s \<and>
         threads_started (snd (execute_install s)) = threads_started s \<and>
         timer_registered (snd (execute_install s)) = timer_registered s"
  using assms by (simp add: execute_install_def Let_def)

text \<open>The operator run a second time, right after it started an installation.\<close>

theorem execute_install_rejected_witness:
  "fal_install_in_progress started \<and>
   fst (execute_install started) = ''CANCELLED'' \<and>
   fal_install_progress (snd (execute_install started)) = 0 \<and>
   fal_install_in_progress (snd (execute_install started)) \<and>
   fal_install_log (snd (execute_install started)) = [] \<and>
   threads_started (snd (execute_install started)) = 1"
proof -
  have h: "fal_install_in_progress started" by simp
  have t: "threads_started started = 1"
    by (simp add: started_def install_package_state registered_def)
  show ?thesis using h t execute_install_rejected [OF h] by simp
qed

text \<open>With no installation in progress the operator resets the state and starts a worker.\<close>

lemma execute_install_starts:
  "\<not> fal_install_in_progress s \<Longrightarrow>
     fst (execute_install s) = ''FINISHED'' \<and>
     fal_install_in_progress (snd (execute_install s)) \<and>
     fal_install_progress (snd (execute_install s)) = 0 \<and>
     fal_install_log (snd (execute_install s)) = [] \<and>
     \<not> fal_install_success (snd (execute_install s)) \<and>
     threads_started (snd (execute_install s)) = threads_started s + 1"
  by (simp add: execute_install_def Let_def install_package_state)

section \<open>Detection of the package\<close>

lemma import_fal_result:
  "fst (import_fal s) =
     (case sys_modules_fal s of
        Some file \<Rightarrow> Inr file
      | None \<Rightarrow>
          (case fal_on_path s of
             Found file \<Rightarrow> Inr file
           | NotFound e \<Rightarrow> Inl (ImportErrorRaised e)
           | Broken e \<Rightarrow> Inl (OtherRaised e)))"
  "snd (import_fal s) =
     s\<lparr>sys_modules_fal :=
         (case sys_modules_fal s of
            Some file \<Rightarrow> Some file
          | None \<Rightarrow> (case fal_on_path s of Found file \<Rightarrow> Some file | _ \<Rightarrow> None))\<rparr>"
  by (simp_all add: import_fal_def split: option.splits import_result.splits)

text \<open>The outcome of a call, and the import state it leaves.\<close>

lemma is_package_installed_result:
  "fst (is_package_installed s) =
     (case sys_modules_fal s of
        Some _ \<Rightarrow> Inr True
      | None \<Rightarrow>
          (case fal_on_path s of
             Found _ \<Rightarrow> Inr True
           | NotFound _ \<Rightarrow> Inr False
           | Broken e \<Rightarrow> Inl e))"
  "sys_modules_fal (snd (is_package_installed s)) =
     (case sys_modules_fal s of
        Some file \<Rightarrow> Some file
      | None \<Rightarrow> (case fal_on_path s of Found file \<Rightarrow> Some file | _ \<Rightarrow> None))"
  "fal_on_path (snd (is_package_installed s)) = fal_on_path s"
  by (simp_all add: is_package_installed_def import_fal_def Let_def log_debug_def
      split: option.splits import_result.splits)

lemma log_debug_appends:
  "console (log_debug m s) = console s @ [''[FAL_DEBUG] '' @ m]"
  "CHR 0x00 \<notin> set (fal_debug_log s) \<Longrightarrow>
     CHR 0x00 \<notin> set (fal_debug_log (log_debug m s)) \<and>
     (\<exists>text. fal_debug_log (log_debug m s) = fal_debug_log s @ text)"
  by (simp_all add: log_debug_def string_prop_no_nul string_prop_append)

text \<open>The claim fails in three ways. On a freshly registered add-on the call appends its
  debug lines to \<^verbatim>\<open>scene.fal_debug_log\<close>, so it does mutate program state. Where the
  package is on the import path, the first call enters the module in \<^verbatim>\<open>sys.modules\<close>. Where
  the package is found and raises a RuntimeError while it is imported, the call returns
  neither true nor false: the exception leaves it.\<close>

theorem is_package_installed_mutates:
  "snd (is_package_installed registered) \<noteq> registered \<and>
   fal_debug_log (snd (is_package_installed registered)) \<noteq> fal_debug_log registered \<and>
   sys_modules_fal installed = None \<and>
   sys_modules_fal (snd (is_package_installed installed)) =
     Some ''/opt/blender/python/lib/site-packages/fal/__init__.py'' \<and>
   fst (is_package_installed broken_install) =
     Inl (PyExc ''RuntimeError'' ''fal requires a newer Python'')"
proof -
  have "fal_debug_log (snd (is_package_installed registered)) \<noteq> fal_debug_log registered"
    by (simp add: is_package_installed_def import_fal_def Let_def log_debug_def registered_def
        string_prop_def)
  moreover from this
  have "snd (is_package_installed registered) \<noteq> registered" by auto
  ultimately show ?thesis
    by (simp add: is_package_installed_result installed_def broken_install_def registered_def)
qed

text \<open>
  Claim C6, amended. \<^verbatim>\<open>is_package_installed\<close> returns true exactly when \<^verbatim>\<open>import fal\<close>
  succeeds (the module is in \<^verbatim>\<open>sys.modules\<close> or is found on the import path) and false when
  the import raises ImportError; an exception of another class raised by the import leaves
  the function. A second call right after the first has the same outcome. The call changes
  nothing of the program state except that it appends its debug lines to the console and
  to \<^verbatim>\<open>scene.fal_debug_log\<close> (extending a log that has no NUL character), and that a
  successful first import enters the module in \<^verbatim>\<open>sys.modules\<close>; the import path is as it was.
\<close>

theorem is_package_installed_query:
  "fst (is_package_installed s) =
     (case sys_modules_fal s of
        Some _ \<Rightarrow> Inr True
      | None \<Rightarrow>
          (case fal_on_path s of
             Found _ \<Rightarrow> Inr True
           | NotFound _ \<Rightarrow> Inr False
           | Broken e \<Rightarrow> Inl e)) \<and>
   fst (is_package_installed (snd (is_package_installed s))) = fst (is_package_installed s) \<and>
   snd (is_package_installed s) =
     s\<lparr>console := console (snd (is_package_installed s)),
       fal_debug_log := fal_debug_log (snd (is_package_installed s)),
       sys_modules_fal :=
         (case sys_modules_fal s of
            Some file \<Rightarrow> Some file
          | None \<Rightarrow> (case fal_on_path s of Found file \<Rightarrow> Some file | _ \<Rightarrow> None))\<rparr> \<and>
   (\<exists>lines. console (snd (is_package_installed s)) = console s @ lines) \<and>
   (CHR 0x00 \<notin> set (fal_debug_log s) \<longrightarrow>
      (\<exists>text. fal_debug_log (snd (is_package_installed s)) = fal_debug_log s @ text))"
proof (intro conjI impI)
  show "fst (is_package_installed s) =
     (case sys_modules_fal s of
        Some _ \<Rightarrow> Inr True
      | None \<Rightarrow>
          (case fal_on_path s of
             Found _ \<Rightarrow> Inr True
           | NotFound _ \<Rightarrow> Inr False
           | Broken e \<Rightarrow> Inl e))"
    by (rule is_package_installed_result(1))
  show "fst (is_package_installed (snd (is_package_installed s))) = fst (is_package_installed s)"
    by (simp add: is_package_installed_result split: option.splits import_result.splits)
  show "snd (is_package_installed s) =
     s\<lparr>console := console (snd (is_package_installed s)),
       fal_debug_log := fal_debug_log (snd (is_package_installed s)),
       sys_modules_fal :=
         (case sys_modules_fal s of
            Some file \<Rightarrow> Some file
          | None \<Rightarrow> (case fal_on_path s of Found file \<Rightarrow> Some file | _ \<Rightarrow> None))\<rparr>"
    by (simp add: is_package_installed_def import_fal_def Let_def log_debug_def
        split: option.splits import_result.splits)
  show "\<exists>lines. console (snd (is_package_installed s)) = console s @ lines"
    by (simp add: is_package_installed_def import_fal_def Let_def log_debug_def
        split: option.splits import_result.splits)
next
  assume nul: "CHR 0x00 \<notin> set (fal_debug_log s)"
  let ?s1 = "log_debug ''Checking if fal package is installed...'' s"
  from log_debug_appends(2) [OF nul]
  obtain t1 where n1: "CHR 0x00 \<notin> set (fal_debug_log ?s1)"
    and t1: "fal_debug_log ?s1 = fal_debug_log s @ t1"
    by blast
  have step: "\<exists>text. fal_debug_log (log_debug m (u\<lparr>sys_modules_fal := c\<rparr>)) = fal_debug_log s @ text"
    if "fal_debug_log u = fal_debug_log ?s1" for m u c
  proof -
    have "CHR 0x00 \<notin> set (fal_debug_log (u\<lparr>sys_modules_fal := c\<rparr>))" using n1 that by simp
    from log_debug_appends(2) [OF this, of m] that t1 show ?thesis by auto
  qed
  have step': "\<exists>text. fal_debug_log (log_debug m ?s1) = fal_debug_log s @ text" for m
    using log_debug_appends(2) [OF n1, of m] t1 by auto
  show "\<exists>text. fal_debug_log (snd (is_package_installed s)) = fal_debug_log s @ text"
  proof (cases "sys_modules_fal s")
    case (Some f)
    then show ?thesis
      using step' by (simp add: is_package_installed_def import_fal_def Let_def)
  next
    case None
    then show ?thesis
      using step' step [of ?s1] t1
      by (cases "fal_on_path s") (simp_all add: is_package_installed_def import_fal_def Let_def)
  qed
qed

text \<open>The package on the import path and not yet imported: true twice, the module entered
  in \<^verbatim>\<open>sys.modules\<close> by the first call; and the package missing: false, the debug log
  extended.\<close>

theorem is_package_installed_query_witness:
  "fst (is_package_installed installed) = Inr True \<and>
   fst (is_package_installed (snd (is_package_installed installed))) = Inr True \<and>
   fst (is_package_installed registered) = Inr False \<and>
   CHR 0x00 \<notin> set (fal_debug_log registered) \<and>
   take (length (fal_debug_log registered)) (fal_debug_log (snd (is_package_installed registered))) =
     fal_debug_log registered"
proof -
  have n: "CHR 0x00 \<notin> set (fal_debug_log registered)" by (simp add: registered_def)
  note a = is_package_installed_query [of installed]
  note b = is_package_installed_query [of registered]
  have 1: "fst (is_package_installed installed) = Inr True"
    using a by (simp add: installed_def registered_def)
  have 2: "fst (is_package_installed (snd (is_package_installed installed))) = Inr True"
    using a 1 by simp
  have 3: "fst (is_package_installed registered) = Inr False"
    using b by (simp add: registered_def)
  obtain added where "fal_debug_log (snd (is_package_installed registered)) =
      fal_debug_log registered @ added"
    using b n by blast
  then have 4: "take (length (fal_debug_log registered))
      (fal_debug_log (snd (is_package_installed registered))) = fal_debug_log registered"
    by simp
  show ?thesis using 1 2 3 4 n by simp
qed

section \<open>The API key\<close>

lemma get_api_key_environ_value:
  "fst (get_api_key_environ s) = (case environ_FAL_KEY s of None \<Rightarrow> [] | Some v \<Rightarrow> v)"
  by (simp add: get_api_key_environ_def Let_def)

text \<open>What \<^verbatim>\<open>set_api_key\<close> returns and what it leaves in the two stores, by the state of the
  add-on preferences.\<close>

lemma set_api_key_environ_effect:
  "fst (set_api_key_environ value s) = (case environ_setitem value of Inr _ \<Rightarrow> True | Inl _ \<Rightarrow> False)"
  "environ_FAL_KEY (snd (set_api_key_environ value s)) =
     (case environ_setitem value of Inr v \<Rightarrow> Some v | Inl _ \<Rightarrow> environ_FAL_KEY s)"
  "addon_prefs (snd (set_api_key_environ value s)) = addon_prefs s"
  by (simp_all add: set_api_key_environ_def split: sum.splits)

lemma set_api_key_with_prefs:
  assumes "addon_prefs s = Prefs k"
  shows "fst (set_api_key value s) =
           (case api_key_setattr value of
              Inl e \<Rightarrow> Inl e
            | Inr _ \<Rightarrow> Inr (case environ_setitem value of Inr _ \<Rightarrow> True | Inl _ \<Rightarrow> False))"
    and "addon_prefs (snd (set_api_key value s)) =
           (case api_key_setattr value of Inl _ \<Rightarrow> Prefs k | Inr v \<Rightarrow> Prefs v)"
    and "environ_FAL_KEY (snd (set_api_key value s)) =
           (case api_key_setattr value of
              Inl _ \<Rightarrow> environ_FAL_KEY s
            | Inr _ \<Rightarrow> (case environ_setitem value of Inr v \<Rightarrow> Some v | Inl _ \<Rightarrow> environ_FAL_KEY s))"
  using assms
  by (simp_all add: set_api_key_def Let_def split_beta set_api_key_environ_effect
      split: sum.splits)

lemma set_api_key_without_prefs_entry:
  assumes "addon_prefs s = NoAddon e \<or> addon_prefs s = NoPreferences e"
  shows "fst (set_api_key value s) =
           Inr (case environ_setitem value of Inr _ \<Rightarrow> True | Inl _ \<Rightarrow> False)"
    and "addon_prefs (snd (set_api_key value s)) = addon_prefs s"
    and "environ_FAL_KEY (snd (set_api_key value s)) =
           (case environ_setitem value of Inr v \<Rightarrow> Some v | Inl _ \<Rightarrow> environ_FAL_KEY s)"
  using assms
  by (auto simp: set_api_key_def Let_def split_beta set_api_key_environ_effect
      split: sum.splits)

text \<open>The claim that \<^verbatim>\<open>set_api_key\<close> writes the given value to both stores fails in three
  ways. Where the add-on has no preferences entry, the call returns True and sets the
  environment variable, and no preference holds the key. Where the value has a NUL
  character, the preference keeps the text before it and the environment variable is not
  set. Where the value is not a str, the assignment to the preference raises TypeError,
  which leaves the function, and neither store is written.\<close>

theorem set_api_key_without_prefs:
  "fst (set_api_key (Str ''key-1'') registered) = Inr True \<and>
   addon_prefs (snd (set_api_key (Str ''key-1'') registered)) \<noteq> Prefs ''key-1'' \<and>
   environ_FAL_KEY (snd (set_api_key (Str ''key-1'') registered)) = Some ''key-1'' \<and>
   addon_prefs (snd (set_api_key (Str [CHR ''a'', CHR 0x00, CHR ''b'']) with_prefs)) = Prefs ''a'' \<and>
   environ_FAL_KEY (snd (set_api_key (Str [CHR ''a'', CHR 0x00, CHR ''b'']) with_prefs)) =
     Some ''env-key'' \<and>
   fst (set_api_key (NonStr ''int'') with_prefs) =
     Inl (PyExc ''TypeError''
       ''bpy_struct: item.attr = val: FALAddonPreferences.api_key expected a string type, not int'') \<and>
   addon_prefs (snd (set_api_key (NonStr ''int'') with_prefs)) = Prefs ''pref-key'' \<and>
   environ_FAL_KEY (snd (set_api_key (NonStr ''int'') with_prefs)) = Some ''env-key''"
proof -
  have r: "addon_prefs registered = NoAddon ''__main__'' \<or>
           addon_prefs registered = NoPreferences ''__main__''"
    and e: "environ_FAL_KEY with_prefs = Some ''env-key''"
    and w: "addon_prefs with_prefs = Prefs ''pref-key''"
    by (simp_all add: registered_def with_prefs_def)
  show ?thesis
    using set_api_key_without_prefs_entry [OF r, of "Str ''key-1''"]
      set_api_key_with_prefs [OF w, of "Str [CHR ''a'', CHR 0x00, CHR ''b'']"]
      set_api_key_with_prefs [OF w, of "NonStr ''int''"] e
    by (simp add: environ_setitem_def api_key_setattr_def string_prop_def registered_def)
qed

text \<open>
  Claim C8, amended. \<^verbatim>\<open>get_api_key\<close> returns the preference key when the preferences exist
  and the key is not empty, and otherwise the value of \<^verbatim>\<open>FAL_KEY\<close> in the environment (the
  empty string when unset). \<^verbatim>\<open>set_api_key\<close> called with a str that has no NUL character
  writes it to the preference field when the add-on preferences exist, and to \<^verbatim>\<open>FAL_KEY\<close> in
  the environment. Without the preferences (KeyError or AttributeError, swallowed) only the
  environment variable is written. For a str with a NUL character the preference keeps
  the text before it and the environment variable is left as it was. For a value that is
  not a str neither store is written.
\<close>

theorem api_key_precedence:
  "fst (get_api_key s) =
     (case addon_prefs s of
        Prefs k \<Rightarrow> if k \<noteq> [] then k else (case environ_FAL_KEY s of None \<Rightarrow> [] | Some v \<Rightarrow> v)
      | NoAddon _ \<Rightarrow> (case environ_FAL_KEY s of None \<Rightarrow> [] | Some v \<Rightarrow> v)
      | NoPreferences _ \<Rightarrow> (case environ_FAL_KEY s of None \<Rightarrow> [] | Some v \<Rightarrow> v)) \<and>
   addon_prefs (snd (set_api_key value s)) =
     (case addon_prefs s of
        Prefs k \<Rightarrow> (case value of Str v \<Rightarrow> Prefs (string_prop v) | NonStr _ \<Rightarrow> Prefs k)
      | NoAddon e \<Rightarrow> NoAddon e
      | NoPreferences e \<Rightarrow> NoPreferences e) \<and>
   environ_FAL_KEY (snd (set_api_key value s)) =
     (case value of
        Str v \<Rightarrow> if CHR 0x00 \<in> set v then environ_FAL_KEY s else Some v
      | NonStr _ \<Rightarrow> environ_FAL_KEY s) \<and>
   (\<forall>v k. value = Str v \<and> CHR 0x00 \<notin> set v \<and> addon_prefs s = Prefs k \<longrightarrow>
      addon_prefs (snd (set_api_key value s)) = Prefs v \<and>
      environ_FAL_KEY (snd (set_api_key value s)) = Some v)"
proof (cases "addon_prefs s")
  case (Prefs k)
  show ?thesis
    using Prefs set_api_key_with_prefs [OF Prefs, of "value"]
    by (cases "value")
       (auto simp: get_api_key_def Let_def get_api_key_environ_value api_key_setattr_def
          environ_setitem_def string_prop_id)
next
  case (NoAddon e)
  then have "addon_prefs s = NoAddon e \<or> addon_prefs s = NoPreferences e" by simp
  from set_api_key_without_prefs_entry [OF this, of "value"] NoAddon show ?thesis
    by (cases "value")
       (auto simp: get_api_key_def Let_def get_api_key_environ_value environ_setitem_def)
next
  case (NoPreferences e)
  then have "addon_prefs s = NoAddon e \<or> addon_prefs s = NoPreferences e" by simp
  from set_api_key_without_prefs_entry [OF this, of "value"] NoPreferences show ?thesis
    by (cases "value")
       (auto simp: get_api_key_def Let_def get_api_key_environ_value environ_setitem_def)
qed

text \<open>The three ways of reading the key, and a write with preferences present.\<close>

theorem api_key_precedence_witness:
  "fst (get_api_key with_prefs) = ''pref-key'' \<and>
   fst (get_api_key (with_prefs\<lparr>addon_prefs := Prefs []\<rparr>)) = ''env-key'' \<and>
   fst (get_api_key registered) = [] \<and>
   addon_prefs (snd (set_api_key (Str ''k2'') with_prefs)) = Prefs ''k2'' \<and>
   environ_FAL_KEY (snd (set_api_key (Str ''k2'') with_prefs)) = Some ''k2''"
proof -
  have w: "addon_prefs with_prefs = Prefs ''pref-key''"
    and e: "environ_FAL_KEY with_prefs = Some ''env-key''"
    and r: "addon_prefs registered = NoAddon ''__main__''" "environ_FAL_KEY registered = None"
    by (simp_all add: with_prefs_def registered_def)
  have 1: "fst (get_api_key with_prefs) = ''pref-key''"
    using conjunct1 [OF api_key_precedence [of with_prefs "Str ''k2''"]] w by simp
  have 2: "fst (get_api_key (with_prefs\<lparr>addon_prefs := Prefs []\<rparr>)) = ''env-key''"
    using conjunct1 [OF api_key_precedence [of "with_prefs\<lparr>addon_prefs := Prefs []\<rparr>" "Str ''k2''"]] e
    by simp
  have 3: "fst (get_api_key registered) = []"
    using conjunct1 [OF api_key_precedence [of registered "Str ''k2''"]] r by simp
  have n: "Str ''k2'' = Str ''k2'' \<and> CHR 0x00 \<notin> set ''k2'' \<and> addon_prefs with_prefs = Prefs ''pref-key''"
    using w by simp
  have "\<forall>v k. Str ''k2'' = Str v \<and> CHR 0x00 \<notin> set v \<and> addon_prefs with_prefs = Prefs k \<longrightarrow>
      addon_prefs (snd (set_api_key (Str ''k2'') with_prefs)) = Prefs v \<and>
      environ_FAL_KEY (snd (set_api_key (Str ''k2'') with_prefs)) = Some v"
    using api_key_precedence [of with_prefs "Str ''k2''"] by blast
  with n have 4: "addon_prefs (snd (set_api_key (Str ''k2'') with_prefs)) = Prefs ''k2'' \<and>
      environ_FAL_KEY (snd (set_api_key (Str ''k2'') with_prefs)) = Some ''k2''"
    by blast
  show ?thesis using 1 2 3 4 by simp
qed




section \<open>Mesh clean-up\<close>

text \<open>
  Claim C10. For an object whose type is not \<^verbatim>\<open>MESH\<close>, \<^verbatim>\<open>process_mesh\<close> returns at once: no
  operator of the host is called and the scene (the object, its mesh data, its location
  and everything around it) is the one it was given.
\<close>

theorem process_mesh_non_mesh:
  "ob_type (ob sc) \<noteq> ''MESH'' \<Longrightarrow> process_mesh bpy sc = Inr sc"
  by (simp add: process_mesh_def)

theorem process_mesh_non_mesh_witness:
  "ob_type (ob camera_scene) \<noteq> ''MESH'' \<and> process_mesh list_host camera_scene = Inr camera_scene"
proof -
  have h: "ob_type (ob camera_scene) \<noteq> ''MESH''" by (simp add: camera_scene_def)
  show ?thesis using h process_mesh_non_mesh [OF h, of list_host] by simp
qed

text \<open>The same host does change a mesh object: vertices merged, origin moved to z = 0.\<close>

lemma process_mesh_mesh_example:
  "process_mesh list_host mesh_scene =
     Inr \<lparr>ob = \<lparr>ob_type = ''MESH'', ob_data = [1, 2], ob_location = (1, 2, 0)\<rparr>,
          around = ''OBJECT''\<rparr>"
  by (simp add: process_mesh_def list_host_def mesh_scene_def Let_def)

end
